theory Spec2Isabelle
  imports Main
begin

section \<open>Configuration (checador/config.py)\<close>

text \<open>
  Only the settings read by the fingerprint matcher, the enrollment endpoint and the
  sync worker are kept. Python integers are unbounded, hence \<open>int\<close>.
\<close>

type_synonym path = string

record app_config =
  device_id :: string
  data_dir :: path

record fingerprint_config =
  nbis_mindtct :: string
  nbis_bozorth3 :: string
  match_threshold :: int
  enrollment_samples :: int
  min_quality_score :: int

record server_config =
  enabled :: bool
  url :: string
  api_key :: string
  sync_interval_seconds :: int
  retry_max_attempts :: int
  retry_backoff_base :: int

record config =
  app :: app_config
  fingerprint :: fingerprint_config
  server :: server_config

text \<open>The defaults of \<open>FingerprintConfig\<close>, \<open>ServerConfig\<close> and \<open>AppConfig\<close>.\<close>

definition default_config :: config where
  "default_config =
     \<lparr> app = \<lparr> device_id = ''CHECADOR-001'', data_dir = ''/var/lib/checador'' \<rparr>,
       fingerprint = \<lparr> nbis_mindtct = ''/usr/local/bin/mindtct'',
                       nbis_bozorth3 = ''/usr/local/bin/bozorth3'',
                       match_threshold = 40, enrollment_samples = 3,
                       min_quality_score = 20 \<rparr>,
       server = \<lparr> enabled = False, url = [], api_key = [],
                  sync_interval_seconds = 300, retry_max_attempts = 5,
                  retry_backoff_base = 2 \<rparr> \<rparr>"

section \<open>Fingerprint matching (checador/fingerprint.py)\<close>

text \<open>
  The NBIS tools are external executables. A call of \<open>subprocess.run\<close> either times
  out, raises some other exception, or completes with a return code; \<open>'a\<close> is what the
  caller then reads from the run.
\<close>

datatype 'a proc = TimeoutExpired | Raised | Completed int 'a

text \<open>
  \<open>match_fingerprints\<close>: for bozorth3 the output read is \<open>int(result.stdout.strip())\<close>,
  \<open>None\<close> standing for the \<open>ValueError\<close> of a text that is no integer. Every failure is
  the value \<open>None\<close>, as in the source.
\<close>

type_synonym bozorth3 = "path \<Rightarrow> path \<Rightarrow> int option proc"

definition match_fingerprints :: "bozorth3 \<Rightarrow> path \<Rightarrow> path \<Rightarrow> int option" where
  "match_fingerprints run probe_xyt gallery_xyt =
     (case run probe_xyt gallery_xyt of
        TimeoutExpired \<Rightarrow> None
      | Raised \<Rightarrow> None
      | Completed returncode out \<Rightarrow>
          (if returncode \<noteq> 0 then None
           else (case out of None \<Rightarrow> None | Some score \<Rightarrow> Some score)))"

text \<open>
  The \<open>for\<close> loop of \<open>identify\<close>, with its two running variables \<open>best_score\<close> and
  \<open>best_template_id\<close> (which starts as \<open>None\<close>).
\<close>

fun identify_loop ::
  "bozorth3 \<Rightarrow> path \<Rightarrow> (int \<times> path) list \<Rightarrow> int \<Rightarrow> int option \<Rightarrow> int \<times> int option" where
  "identify_loop run probe_xyt [] best_score best_template_id =
     (best_score, best_template_id)"
| "identify_loop run probe_xyt ((template_id, gallery_xyt) # rest) best_score best_template_id =
     (case match_fingerprints run probe_xyt gallery_xyt of
        None \<Rightarrow> identify_loop run probe_xyt rest best_score best_template_id
      | Some score \<Rightarrow>
          (if score > best_score
           then identify_loop run probe_xyt rest score (Some template_id)
           else identify_loop run probe_xyt rest best_score best_template_id))"

text \<open>
  \<open>identify\<close> returns \<open>(best_template_id, best_score)\<close> or \<open>None\<close>. The first component
  is itself optional: the source returns the variable that was initialised to \<open>None\<close>.
\<close>

definition identify ::
  "config \<Rightarrow> bozorth3 \<Rightarrow> path \<Rightarrow> (int \<times> path) list \<Rightarrow> (int option \<times> int) option" where
  "identify cfg run probe_xyt gallery_templates =
     (case identify_loop run probe_xyt gallery_templates 0 None of
        (best_score, best_template_id) \<Rightarrow>
          (if best_score \<ge> match_threshold (fingerprint cfg)
           then Some (best_template_id, best_score)
           else None))"

text \<open>
  The scores the matcher delivers over a gallery, in gallery order: failed calls
  contribute nothing.
\<close>

definition gallery_scores :: "bozorth3 \<Rightarrow> path \<Rightarrow> (int \<times> path) list \<Rightarrow> int list" where
  "gallery_scores run probe_xyt gallery_templates =
     List.map_filter (\<lambda>(template_id, gallery_xyt). match_fingerprints run probe_xyt gallery_xyt)
       gallery_templates"

text \<open>The templates of a gallery whose matcher call succeeds.\<close>

definition matched_ok :: "bozorth3 \<Rightarrow> path \<Rightarrow> (int \<times> path) list \<Rightarrow> (int \<times> path) list" where
  "matched_ok run probe_xyt gallery_templates =
     filter (\<lambda>(template_id, gallery_xyt). match_fingerprints run probe_xyt gallery_xyt \<noteq> None)
       gallery_templates"

subsection \<open>Feature extraction\<close>

text \<open>
  \<open>extract_features\<close> runs mindtct and then looks at the \<open>.xyt\<close> file it should have
  written. The file is missing, or cannot be read, or has lines (as text-mode iteration
  yields them, line ends included). A character stands for a code point below 256;
  \<open>py_isspace\<close> lists the ones that \<open>str.strip()\<close> removes.
\<close>

datatype xyt_file = Missing | Unreadable | Lines "string list"

definition py_isspace :: "char \<Rightarrow> bool" where
  "py_isspace c =
     (c \<in> set [CHR 0x09, CHR 0x0A, CHR 0x0B, CHR 0x0C, CHR 0x0D,
                CHR 0x1C, CHR 0x1D, CHR 0x1E, CHR 0x1F, CHR 0x20,
                CHR 0x85, CHR 0xA0])"

definition strip :: "string \<Rightarrow> string" where
  "strip s = rev (dropWhile py_isspace (rev (dropWhile py_isspace s)))"

definition startswith :: "string \<Rightarrow> string \<Rightarrow> bool" where
  "startswith s pre = (take (length pre) s = pre)"

text \<open>
  \<open>_calculate_quality\<close>: the number of lines that are not blank and do not start with
  \<open>#\<close>; \<open>0\<close> when reading raises.
\<close>

definition calculate_quality :: "xyt_file \<Rightarrow> int" where
  "calculate_quality f =
     (case f of
        Lines ls \<Rightarrow>
          int (length (map strip
                 (filter (\<lambda>line. strip line \<noteq> [] \<and> \<not> startswith line ''#'') ls)))
      | Unreadable \<Rightarrow> 0
      | Missing \<Rightarrow> 0)"

text \<open>
  The world outside the process as the enrollment endpoint meets it: pathlib's
  \<open>with_suffix\<close> and \<open>/\<close>, the existence of files, the clock, the camera, and mindtct,
  whose result is the state of the \<open>.xyt\<close> file after the run.
\<close>

record env =
  with_suffix :: "path \<Rightarrow> string \<Rightarrow> path"
  path_join :: "path \<Rightarrow> string \<Rightarrow> path"
  path_exists :: "path \<Rightarrow> bool"
  utcnow :: string
  utcnow_strftime :: string
  capture_fingerprint :: "path \<Rightarrow> bool \<times> string option"
  mindtct :: "path \<Rightarrow> path \<Rightarrow> xyt_file proc"

definition extract_features :: "env \<Rightarrow> path \<Rightarrow> bool \<times> path option \<times> int" where
  "extract_features e image_path =
     (let output_base = with_suffix e image_path [];
          xyt_path = with_suffix e output_base ''.xyt''
      in case mindtct e image_path output_base of
           TimeoutExpired \<Rightarrow> (False, None, 0)
         | Raised \<Rightarrow> (False, None, 0)
         | Completed returncode xyt \<Rightarrow>
             (if returncode \<noteq> 0 then (False, None, 0)
              else if xyt = Missing then (False, None, 0)
              else (True, Some xyt_path, calculate_quality xyt)))"

section \<open>Text of integers\<close>

text \<open>Python's \<open>str\<close> of an integer, as the f-strings of the source use it.\<close>

fun str_nat :: "nat \<Rightarrow> string" where
  "str_nat n =
     (if n < 10 then [''0123456789'' ! n]
      else str_nat (n div 10) @ [''0123456789'' ! (n mod 10)])"

definition str_int :: "int \<Rightarrow> string" where
  "str_int i = (if i < 0 then CHR ''-'' # str_nat (nat (- i)) else str_nat (nat i))"

declare str_nat.simps [simp del]

section \<open>Storage (checador/database.py)\<close>

text \<open>
  Modelled from the spec: the records \<open>User\<close>, \<open>Template\<close> and \<open>Punch\<close> of the database
  module, which is not among the sources at hand, after the data model of the
  specification; the sync status is one of unsynced, synced and error, with the last
  error text kept beside it. Timestamps are kept as their ISO text.
\<close>

type_synonym datetime = string

datatype sync_status = Unsynced | Synced | SyncError

record user =
  u_id :: int
  u_name :: string
  u_employee_code :: string
  u_active :: bool
  u_created_at :: datetime

record template =
  t_id :: int
  t_user_id :: int
  t_template_path :: string
  t_quality :: int
  t_created_at :: datetime

record punch =
  p_id :: int
  p_user_id :: int
  p_timestamp_utc :: datetime
  p_timestamp_local :: datetime
  p_punch_type :: string
  p_match_score :: int
  p_device_id :: string
  p_status :: sync_status
  p_sync_error :: "string option"

record database =
  users :: "user list"
  templates :: "template list"
  punches :: "punch list"

text \<open>
  Modelled from the spec: \<open>Database.get_user\<close>, which resolves a user by identifier
  (absent: \<open>None\<close>).
\<close>

definition get_user :: "int \<Rightarrow> database \<Rightarrow> user option" where
  "get_user uid d = find (\<lambda>u. u_id u = uid) (users d)"

text \<open>
  Modelled from the spec: \<open>Database.get_unsynced_punches\<close>, the contract
  \<open>listUnsynced(limit)\<close>: up to \<open>limit\<close> punches that are not yet synced, oldest first
  (the list is kept in creation order). A punch marked \<open>error\<close> stays eligible.
\<close>

definition get_unsynced_punches :: "nat \<Rightarrow> database \<Rightarrow> punch list" where
  "get_unsynced_punches limit d = take limit (filter (\<lambda>p. p_status p \<noteq> Synced) (punches d))"

text \<open>
  Modelled from the spec: \<open>Database.mark_punches_synced\<close>, the contract
  \<open>markSynced(ids)\<close>: every punch whose identifier is listed becomes \<open>synced\<close>.
\<close>

definition mark_punches_synced :: "int list \<Rightarrow> database \<Rightarrow> database" where
  "mark_punches_synced ids d =
     d\<lparr>punches := map (\<lambda>p. if p_id p \<in> set ids then p\<lparr>p_status := Synced\<rparr> else p) (punches d)\<rparr>"

text \<open>
  Modelled from the spec: \<open>Database.mark_punch_sync_error\<close>, the contract
  \<open>markError(id, message)\<close>: the punch becomes \<open>error\<close> and keeps the failure detail.
\<close>

definition mark_punch_sync_error :: "int \<Rightarrow> string \<Rightarrow> database \<Rightarrow> database" where
  "mark_punch_sync_error pid err d =
     d\<lparr>punches := map (\<lambda>p. if p_id p = pid
                             then p\<lparr>p_status := SyncError, p_sync_error := Some err\<rparr>
                             else p) (punches d)\<rparr>"

text \<open>
  Modelled from the spec: \<open>Database.get_user_templates\<close>, the contract
  \<open>listTemplatesForUser(userId)\<close>.
\<close>

definition get_user_templates :: "int \<Rightarrow> database \<Rightarrow> template list" where
  "get_user_templates uid d = filter (\<lambda>t. t_user_id t = uid) (templates d)"

text \<open>
  Modelled from the spec: \<open>Database.add_template\<close>, the contract
  \<open>createTemplate(userId, featureHandle, quality)\<close>: one more template, owned by the
  user, with the quality as given and the creation time of the call. Identifiers count
  upwards.
\<close>

definition next_template_id :: "database \<Rightarrow> int" where
  "next_template_id d = fold (\<lambda>t m. max (t_id t) m) (templates d) 0 + 1"

definition add_template :: "int \<Rightarrow> string \<Rightarrow> int \<Rightarrow> datetime \<Rightarrow> database \<Rightarrow> database" where
  "add_template uid template_path q created d =
     d\<lparr>templates := templates d @
          [\<lparr> t_id = next_template_id d, t_user_id = uid, t_template_path = template_path,
             t_quality = q, t_created_at = created \<rparr>]\<rparr>"

section \<open>Sync worker (checador/sync.py)\<close>

text \<open>The JSON body of the upload and the request that carries it.\<close>

record punch_entry =
  e_user_id :: int
  e_employee_code :: string
  e_timestamp_utc :: string
  e_timestamp_local :: string
  e_punch_type :: string
  e_match_score :: int
  e_device_id :: string

record payload =
  pl_device_id :: string
  pl_punches :: "punch_entry list"

record http_request =
  req_url :: string
  req_json :: payload
  req_headers :: "(string \<times> string) list"

text \<open>
  The remote endpoint answers a request with a status code and a body text, or the
  transport raises (connection refused, timeout).
\<close>

datatype http_outcome = Response int string | TransportError string

type_synonym endpoint = "http_request \<Rightarrow> http_outcome"

text \<open>
  The state the worker acts on: the database, a log of the database calls it has made,
  and the requests it has sent, so that reading and contacting the network are visible.
\<close>

datatype db_call =
    GetUnsyncedPunches nat
  | GetUser int
  | MarkPunchesSynced "int list"
  | MarkPunchSyncError int string

record world =
  db :: database
  db_calls :: "db_call list"
  requests :: "http_request list"

definition db_get_unsynced_punches :: "nat \<Rightarrow> world \<Rightarrow> punch list \<times> world" where
  "db_get_unsynced_punches limit w =
     (get_unsynced_punches limit (db w), w\<lparr>db_calls := db_calls w @ [GetUnsyncedPunches limit]\<rparr>)"

definition db_get_user :: "int \<Rightarrow> world \<Rightarrow> user option \<times> world" where
  "db_get_user uid w = (get_user uid (db w), w\<lparr>db_calls := db_calls w @ [GetUser uid]\<rparr>)"

definition db_mark_punches_synced :: "int list \<Rightarrow> world \<Rightarrow> world" where
  "db_mark_punches_synced ids w =
     w\<lparr>db := mark_punches_synced ids (db w), db_calls := db_calls w @ [MarkPunchesSynced ids]\<rparr>"

definition db_mark_punch_sync_error :: "int \<Rightarrow> string \<Rightarrow> world \<Rightarrow> world" where
  "db_mark_punch_sync_error pid err w =
     w\<lparr>db := mark_punch_sync_error pid err (db w),
       db_calls := db_calls w @ [MarkPunchSyncError pid err]\<rparr>"

definition client_post :: "endpoint \<Rightarrow> http_request \<Rightarrow> world \<Rightarrow> http_outcome \<times> world" where
  "client_post ep req w = (ep req, w\<lparr>requests := requests w @ [req]\<rparr>)"

text \<open>The dictionary built for one punch and its user.\<close>

definition punch_entry_of :: "user \<Rightarrow> punch \<Rightarrow> punch_entry" where
  "punch_entry_of user punch =
     \<lparr> e_user_id = u_id user,
       e_employee_code = u_employee_code user,
       e_timestamp_utc = p_timestamp_utc punch,
       e_timestamp_local = p_timestamp_local punch,
       e_punch_type = p_punch_type punch,
       e_match_score = p_match_score punch,
       e_device_id = p_device_id punch \<rparr>"

text \<open>The loop that prepares \<open>punch_data\<close>: a punch whose user is not found is passed over.\<close>

fun prepare_punch_data :: "punch list \<Rightarrow> world \<Rightarrow> punch_entry list \<times> world" where
  "prepare_punch_data [] w = ([], w)"
| "prepare_punch_data (punch # rest) w =
     (case db_get_user (p_user_id punch) w of
        (None, w1) \<Rightarrow> prepare_punch_data rest w1
      | (Some user, w1) \<Rightarrow>
          (case prepare_punch_data rest w1 of
             (punch_data, w2) \<Rightarrow> (punch_entry_of user punch # punch_data, w2)))"

text \<open>The payload, the headers and the address of the upload.\<close>

definition sync_request :: "config \<Rightarrow> punch_entry list \<Rightarrow> http_request" where
  "sync_request cfg punch_data =
     (let body = \<lparr> pl_device_id = device_id (app cfg), pl_punches = punch_data \<rparr>;
          headers = [(''Authorization'', ''Bearer '' @ api_key (server cfg)),
                     (''Content-Type'', ''application/json'')]
      in \<lparr> req_url = url (server cfg) @ ''/punches'', req_json = body, req_headers = headers \<rparr>)"

text \<open>The loop that marks the error on every punch of the batch.\<close>

fun mark_errors :: "punch list \<Rightarrow> string \<Rightarrow> world \<Rightarrow> world" where
  "mark_errors [] err w = w"
| "mark_errors (punch # rest) err w =
     mark_errors rest err (db_mark_punch_sync_error (p_id punch) err w)"

text \<open>
  \<open>sync_now\<close>. The \<open>try\<close> block catches every exception and returns \<open>False\<close>; the one
  raise the model has is that of the transport.
\<close>

definition sync_now :: "config \<Rightarrow> endpoint \<Rightarrow> world \<Rightarrow> bool \<times> world" where
  "sync_now cfg ep w =
     (if \<not> enabled (server cfg) then (True, w)
      else if url (server cfg) = [] then (True, w)
      else
        (case db_get_unsynced_punches 100 w of
           (batch, w1) \<Rightarrow>
             (if batch = [] then (True, w1)
              else
                (case prepare_punch_data batch w1 of
                   (punch_data, w2) \<Rightarrow>
                     (case client_post ep (sync_request cfg punch_data) w2 of
                        (TransportError e, w3) \<Rightarrow> (False, w3)
                      | (Response status_code text, w3) \<Rightarrow>
                          (if status_code = 200
                           then (True, db_mark_punches_synced (map p_id batch) w3)
                           else (False,
                                 mark_errors batch
                                   (''Server returned '' @ str_int status_code @ '': '' @ text)
                                   w3)))))))"

text \<open>
  The entries of the payload built from a batch, and the punches of the batch that are
  in it: those whose user is resolved.
\<close>

definition payload_entries :: "database \<Rightarrow> punch list \<Rightarrow> punch_entry list" where
  "payload_entries d batch =
     List.map_filter
       (\<lambda>punch. case get_user (p_user_id punch) d of
                  None \<Rightarrow> None
                | Some user \<Rightarrow> Some (punch_entry_of user punch))
       batch"

definition in_payload :: "database \<Rightarrow> punch list \<Rightarrow> punch list" where
  "in_payload d batch = filter (\<lambda>punch. get_user (p_user_id punch) d \<noteq> None) batch"

text \<open>What marking an error does to one punch record.\<close>

definition as_error :: "string \<Rightarrow> punch \<Rightarrow> punch" where
  "as_error err p = p\<lparr>p_status := SyncError, p_sync_error := Some err\<rparr>"

subsection \<open>The background loop\<close>

datatype task = SyncLoopTask

record worker =
  running :: bool
  task :: "task option"

definition start :: "config \<Rightarrow> worker \<Rightarrow> worker" where
  "start cfg wk =
     (if \<not> enabled (server cfg) then wk
      else if running wk then wk
      else wk\<lparr>running := True, task := Some SyncLoopTask\<rparr>)"

text \<open>\<open>stop\<close> clears the flag and cancels the task; the worker keeps the handle.\<close>

definition stop :: "worker \<Rightarrow> worker" where
  "stop wk = wk\<lparr>running := False\<rparr>"

text \<open>
  The numbers of the loop. The conversion of an integer to a float raises
  \<open>OverflowError\<close> from \<open>2 ^ 1024 - 2 ^ 970\<close> on, in absolute value.
\<close>

datatype py_error = ZeroDivisionError | OverflowError | ValueError

datatype py_number = PyInt int | PyFloatPow int int

definition float_overflow_bound :: int where
  "float_overflow_bound = 2 ^ 1024 - 2 ^ 970"

definition float_overflows :: "int \<Rightarrow> bool" where
  "float_overflows i = (float_overflow_bound \<le> \<bar>i\<bar>)"

text \<open>
  Python's \<open>**\<close> on integers: an integer for an exponent that is not negative. For a
  negative exponent both operands are converted to floats, which may raise; base 0
  raises \<open>ZeroDivisionError\<close>; otherwise the result is a float (kept as base and
  exponent).
\<close>

definition py_pow :: "int \<Rightarrow> int \<Rightarrow> py_error + py_number" where
  "py_pow b e =
     (if 0 \<le> e then Inr (PyInt (b ^ nat e))
      else if float_overflows b \<or> float_overflows e then Inl OverflowError
      else if b = 0 then Inl ZeroDivisionError
      else Inr (PyFloatPow b e))"

text \<open>
  The text of an integer in an f-string: CPython raises \<open>ValueError\<close> for an integer of
  more decimal digits than \<open>sys.int_info.default_max_str_digits\<close> (the value of
  CPython 3.11, the newest release the package names). A float is always printed.
\<close>

definition int_max_str_digits :: nat where
  "int_max_str_digits = 4300"

definition str_raises :: "int \<Rightarrow> bool" where
  "str_raises i = (int_max_str_digits < length (str_nat (nat \<bar>i\<bar>)))"

definition format_raises :: "py_number \<Rightarrow> bool" where
  "format_raises x = (case x of PyInt n \<Rightarrow> str_raises n | PyFloatPow b e \<Rightarrow> False)"

text \<open>
  \<open>asyncio.sleep(delay)\<close>: a delay of 0 or less returns at once; otherwise the delay is
  added to the float clock of the event loop, which raises for an integer that no float
  can hold. The value is the delay slept.
\<close>

definition asyncio_sleep :: "py_number \<Rightarrow> py_error + py_number" where
  "asyncio_sleep delay =
     (case delay of
        PyInt n \<Rightarrow>
          (if n \<le> 0 then Inr delay
           else if float_overflows n then Inl OverflowError
           else Inr delay)
      | PyFloatPow b e \<Rightarrow> Inr delay)"

text \<open>
  The \<open>try\<close> block of one turn of \<open>_sync_loop\<close> after \<open>sync_now\<close> has returned
  \<open>success\<close>: the retry count as the block leaves it, and the time slept or the
  exception raised. The count is assigned before the power is computed, the warning is
  formatted before the sleep.
\<close>

definition sync_loop_try :: "config \<Rightarrow> bool \<Rightarrow> int \<Rightarrow> int \<times> (py_error + py_number)" where
  "sync_loop_try cfg success retry_count =
     (if success then (0, asyncio_sleep (PyInt (sync_interval_seconds (server cfg))))
      else
        (let retry_count' = min (retry_count + 1) (retry_max_attempts (server cfg))
         in (retry_count',
             (case py_pow (retry_backoff_base (server cfg)) retry_count' of
                Inl e \<Rightarrow> Inl e
              | Inr backoff \<Rightarrow>
                  (if format_raises backoff \<or> str_raises retry_count' then Inl ValueError
                   else asyncio_sleep backoff)))))"

text \<open>
  One turn of \<open>_sync_loop\<close>: an exception raised inside the \<open>try\<close> block is caught and
  the loop sleeps 60 seconds.
\<close>

definition sync_loop_body :: "config \<Rightarrow> bool \<Rightarrow> int \<Rightarrow> int \<times> py_number" where
  "sync_loop_body cfg success retry_count =
     (case sync_loop_try cfg success retry_count of
        (retry_count', Inr slept) \<Rightarrow> (retry_count', slept)
      | (retry_count', Inl e) \<Rightarrow> (retry_count', PyInt 60))"

text \<open>
  The loop runs until it is cancelled. A run is given by the endpoint's behaviour in each
  of its cycles; it yields, per cycle, the outcome, the retry count and the sleep.
\<close>

record cycle =
  c_success :: bool
  c_retry_count :: int
  c_sleep :: py_number

fun sync_loop :: "config \<Rightarrow> endpoint list \<Rightarrow> int \<Rightarrow> world \<Rightarrow> cycle list \<times> world" where
  "sync_loop cfg [] retry_count w = ([], w)"
| "sync_loop cfg (ep # eps) retry_count w =
     (case sync_now cfg ep w of
        (success, w1) \<Rightarrow>
          (case sync_loop_body cfg success retry_count of
             (retry_count', slept) \<Rightarrow>
               (case sync_loop cfg eps retry_count' w1 of
                  (cycles, w2) \<Rightarrow>
                    (\<lparr> c_success = success, c_retry_count = retry_count', c_sleep = slept \<rparr>
                       # cycles, w2))))"

section \<open>Enrollment capture (checador/api/admin.py)\<close>

datatype api_error = HTTPException int | FileNotFoundError string

record capture_response =
  cr_success :: bool
  cr_quality :: int
  cr_sample_number :: int
  cr_message :: string

definition verify_token :: "(string \<rightharpoonup> datetime) \<Rightarrow> string \<Rightarrow> bool" where
  "verify_token active_tokens token = (token \<in> dom active_tokens)"

text \<open>
  \<open>FingerprintMatcher.__init__\<close> checks both NBIS tools and raises on the first that is
  missing.
\<close>

fun verify_nbis_tools_loop :: "env \<Rightarrow> string list \<Rightarrow> string option" where
  "verify_nbis_tools_loop e [] = None"
| "verify_nbis_tools_loop e (tool # tools) =
     (if \<not> path_exists e tool
      then Some (''NBIS tool not found: '' @ tool @ [CHR 0x0A] @
                 ''Please install NBIS and update config.toml'')
      else verify_nbis_tools_loop e tools)"

definition verify_nbis_tools :: "config \<Rightarrow> env \<Rightarrow> string option" where
  "verify_nbis_tools cfg e =
     verify_nbis_tools_loop e
       [nbis_mindtct (fingerprint cfg), nbis_bozorth3 (fingerprint cfg)]"

definition template_dir :: "config \<Rightarrow> env \<Rightarrow> path" where
  "template_dir cfg e = path_join e (data_dir (app cfg)) ''templates''"

text \<open>
  The path of the captured image:
  \<open>config.template_dir / f"{user.employee_code}_{sample_number}_{timestamp}.png"\<close>.
\<close>

definition sample_image_path :: "config \<Rightarrow> env \<Rightarrow> user \<Rightarrow> int \<Rightarrow> path" where
  "sample_image_path cfg e user sample_number =
     (let timestamp = utcnow_strftime e;
          filename = u_employee_code user @ ''_'' @ str_int sample_number @ ''_'' @ timestamp
      in path_join e (template_dir cfg e) (filename @ ''.png''))"

text \<open>
  \<open>capture_sample\<close>. The token check and the construction of the matcher come before
  the \<open>try\<close> block, so their exceptions leave the function; everything else returns a
  \<open>CaptureResponse\<close>. The database is returned as the call leaves it.
\<close>

definition capture_sample ::
  "(string \<rightharpoonup> datetime) \<Rightarrow> config \<Rightarrow> env \<Rightarrow> database \<Rightarrow> int \<Rightarrow> int \<Rightarrow> string
     \<Rightarrow> (api_error + capture_response) \<times> database" where
  "capture_sample active_tokens cfg e d user_id sample_number token =
     (if \<not> verify_token active_tokens token then (Inl (HTTPException 401), d)
      else
        (case verify_nbis_tools cfg e of
           Some err \<Rightarrow> (Inl (FileNotFoundError err), d)
         | None \<Rightarrow>
             (case get_user user_id d of
                None \<Rightarrow>
                  (Inr \<lparr> cr_success = False, cr_quality = 0, cr_sample_number = sample_number,
                         cr_message = ''User not found'' \<rparr>, d)
              | Some user \<Rightarrow>
                  (let image_path = sample_image_path cfg e user sample_number
                   in (case capture_fingerprint e image_path of
                         (captured, error) \<Rightarrow>
                           (if \<not> captured
                            then (Inr \<lparr> cr_success = False, cr_quality = 0,
                                        cr_sample_number = sample_number,
                                        cr_message =
                                          (case error of
                                             None \<Rightarrow> ''Capture failed''
                                           | Some m \<Rightarrow> if m = [] then ''Capture failed'' else m) \<rparr>,
                                  d)
                            else
                              (case extract_features e image_path of
                                 (extracted, xyt_path, quality) \<Rightarrow>
                                   (if \<not> extracted
                                    then (Inr \<lparr> cr_success = False, cr_quality = 0,
                                                cr_sample_number = sample_number,
                                                cr_message = ''Feature extraction failed'' \<rparr>, d)
                                    else if quality < min_quality_score (fingerprint cfg)
                                    then (Inr \<lparr> cr_success = False, cr_quality = quality,
                                                cr_sample_number = sample_number,
                                                cr_message =
                                                  ''Low quality fingerprint (score='' @ str_int quality
                                                  @ '', minimum=''
                                                  @ str_int (min_quality_score (fingerprint cfg))
                                                  @ '')'' \<rparr>, d)
                                    else (Inr \<lparr> cr_success = True, cr_quality = quality,
                                                cr_sample_number = sample_number,
                                                cr_message = ''Sample captured successfully'' \<rparr>,
                                          add_template (u_id user)
                                            (case xyt_path of Some p \<Rightarrow> p | None \<Rightarrow> ''None'')
                                            quality (utcnow e) d)))))))))"

section \<open>Concrete scenarios\<close>

text \<open>
  A matcher with fixed answers, for the scenarios evaluated below: templates \<open>a\<close> and
  \<open>c\<close> score 42, \<open>b\<close> scores 41, \<open>e\<close> 40, \<open>l\<close> 30, \<open>m\<close> 20, \<open>n\<close> scores below zero, \<open>f\<close>
  makes bozorth3 exit with an error, \<open>t\<close> times out, anything else raises.
\<close>

definition scenario_bozorth3 :: bozorth3 where
  "scenario_bozorth3 probe_xyt gallery_xyt =
     (if gallery_xyt = ''a'' then Completed 0 (Some 42)
      else if gallery_xyt = ''b'' then Completed 0 (Some 41)
      else if gallery_xyt = ''c'' then Completed 0 (Some 42)
      else if gallery_xyt = ''e'' then Completed 0 (Some 40)
      else if gallery_xyt = ''l'' then Completed 0 (Some 30)
      else if gallery_xyt = ''m'' then Completed 0 (Some 20)
      else if gallery_xyt = ''n'' then Completed 0 (Some (- 3))
      else if gallery_xyt = ''f'' then Completed 1 None
      else if gallery_xyt = ''t'' then TimeoutExpired
      else Raised)"

text \<open>
  A store for the scenarios: user 10 owns template 1, user 20 owns templates 3 and 4;
  punch 1 belongs to user 10, punch 2 to a user 99 that cannot be resolved.
\<close>

definition scenario_db :: database where
  "scenario_db =
     \<lparr> users =
         [\<lparr> u_id = 10, u_name = ''Ana'', u_employee_code = ''A123'', u_active = True,
            u_created_at = ''2024-01-01T08:00:00'' \<rparr>,
          \<lparr> u_id = 20, u_name = ''Luis'', u_employee_code = ''B456'', u_active = True,
            u_created_at = ''2024-01-02T08:00:00'' \<rparr>],
       templates =
         [\<lparr> t_id = 1, t_user_id = 10, t_template_path = ''a'', t_quality = 30,
            t_created_at = ''2024-01-01T08:01:00'' \<rparr>,
          \<lparr> t_id = 3, t_user_id = 20, t_template_path = ''c'', t_quality = 31,
            t_created_at = ''2024-01-02T08:01:00'' \<rparr>,
          \<lparr> t_id = 4, t_user_id = 20, t_template_path = ''b'', t_quality = 32,
            t_created_at = ''2024-01-02T08:02:00'' \<rparr>],
       punches =
         [\<lparr> p_id = 1, p_user_id = 10, p_timestamp_utc = ''2024-02-01T14:00:00'',
            p_timestamp_local = ''2024-02-01T08:00:00'', p_punch_type = ''in'',
            p_match_score = 42, p_device_id = ''CHECADOR-001'', p_status = Unsynced,
            p_sync_error = None \<rparr>,
          \<lparr> p_id = 2, p_user_id = 99, p_timestamp_utc = ''2024-02-01T14:05:00'',
            p_timestamp_local = ''2024-02-01T08:05:00'', p_punch_type = ''in'',
            p_match_score = 45, p_device_id = ''CHECADOR-001'', p_status = Unsynced,
            p_sync_error = None \<rparr>] \<rparr>"

text \<open>A configuration with sync switched on, and a world that starts from the store.\<close>

definition scenario_config :: config where
  "scenario_config =
     default_config\<lparr>server := (server default_config)\<lparr>enabled := True, url := ''http://srv''\<rparr>\<rparr>"

definition scenario_world :: world where
  "scenario_world = \<lparr> db = scenario_db, db_calls = [], requests = [] \<rparr>"

text \<open>A store without punches.\<close>

definition drained_world :: world where
  "drained_world = \<lparr> db = scenario_db\<lparr>punches := []\<rparr>, db_calls = [], requests = [] \<rparr>"

text \<open>
  A store with a backlog of 101 unsynced punches of user 10, one more than a batch
  holds.
\<close>

definition backlog_punch :: "nat \<Rightarrow> punch" where
  "backlog_punch i =
     \<lparr> p_id = int i, p_user_id = 10, p_timestamp_utc = ''2024-02-01T14:00:00'',
       p_timestamp_local = ''2024-02-01T08:00:00'', p_punch_type = ''in'',
       p_match_score = 42, p_device_id = ''CHECADOR-001'', p_status = Unsynced,
       p_sync_error = None \<rparr>"

definition backlog_world :: world where
  "backlog_world =
     \<lparr> db = scenario_db\<lparr>punches := map backlog_punch [0..<101]\<rparr>,
       db_calls = [], requests = [] \<rparr>"

text \<open>
  Three endpoints: one accepts every batch, one answers 500, one cannot be reached.
\<close>

definition accepting_endpoint :: endpoint where
  "accepting_endpoint req = Response 200 ''ok''"

definition failing_endpoint :: endpoint where
  "failing_endpoint req = Response 500 ''boom''"

definition unreachable_endpoint :: endpoint where
  "unreachable_endpoint req = TransportError ''connection refused''"

text \<open>
  An administrator's token, and an environment in which the tools exist, the camera
  delivers an image and mindtct ends as given.
\<close>

definition scenario_tokens :: "string \<rightharpoonup> datetime" where
  "scenario_tokens = [''tok'' \<mapsto> ''2024-02-01T13:00:00'']"

definition scenario_env :: "xyt_file proc \<Rightarrow> env" where
  "scenario_env outcome =
     \<lparr> with_suffix = (\<lambda>p suffix. takeWhile (\<lambda>c. c \<noteq> CHR ''.'') p @ suffix),
       path_join = (\<lambda>p name. p @ ''/'' @ name),
       path_exists = (\<lambda>p. True),
       utcnow = ''2024-02-01T14:00:00'',
       utcnow_strftime = ''20240201_140000'',
       capture_fingerprint = (\<lambda>p. (True, None)),
       mindtct = (\<lambda>image_path output_base. outcome) \<rparr>"

definition zero_threshold_config :: config where
  "zero_threshold_config =
     default_config\<lparr>fingerprint := (fingerprint default_config)\<lparr>match_threshold := 0\<rparr>\<rparr>"

section \<open>Properties of identification\<close>

lemma identify_loop_matched_ok:
  "identify_loop run probe g b t = identify_loop run probe (matched_ok run probe g) b t"
  by (induction g arbitrary: b t) (auto simp: matched_ok_def split: option.splits)

lemma identify_loop_ge: "b \<le> fst (identify_loop run probe g b t)"
proof (induction g arbitrary: b t)
  case Nil
  then show ?case by simp
next
  case (Cons a g)
  obtain tid p where a: "a = (tid, p)" by (cases a)
  show ?case
  proof (cases "match_fingerprints run probe p")
    case None
    then show ?thesis using Cons.IH [of b t] by (simp add: a)
  next
    case (Some s)
    show ?thesis
    proof (cases "s > b")
      case True
      then show ?thesis using Cons.IH [of s "Some tid"] Some by (simp add: a)
    next
      case False
      then show ?thesis using Cons.IH [of b t] Some by (simp add: a)
    qed
  qed
qed

lemma gallery_scores_Nil: "gallery_scores run probe [] = []"
  by (simp add: gallery_scores_def map_filter_simps)

lemma gallery_scores_Cons:
  "gallery_scores run probe ((tid, p) # g) =
     (case match_fingerprints run probe p of
        None \<Rightarrow> gallery_scores run probe g
      | Some s \<Rightarrow> s # gallery_scores run probe g)"
  by (simp add: gallery_scores_def map_filter_simps split: option.splits)

lemma identify_loop_fst:
  "fst (identify_loop run probe g b t) = Max (insert b (set (gallery_scores run probe g)))"
proof (induction g arbitrary: b t)
  case Nil
  then show ?case by (simp add: gallery_scores_Nil)
next
  case (Cons a g)
  obtain tid p where a: "a = (tid, p)" by (cases a)
  show ?case
  proof (cases "match_fingerprints run probe p")
    case None
    then show ?thesis using Cons.IH [of b t] by (simp add: a gallery_scores_Cons)
  next
    case (Some s)
    let ?S = "set (gallery_scores run probe g)"
    show ?thesis
    proof (cases "s > b")
      case True
      have "Max (insert b (insert s ?S)) = max b (Max (insert s ?S))"
        by (simp add: Max_insert)
      also have "\<dots> = Max (insert s ?S)"
        using True by (simp add: max_def) (meson List.finite_set Max_ge finite_insert insertI1 le_less_trans not_le order_less_imp_le)
      finally show ?thesis using Cons.IH [of s "Some tid"] Some True
        by (simp add: a gallery_scores_Cons)
    next
      case False
      have "Max (insert b (insert s ?S)) = Max (insert s (insert b ?S))"
        by (simp add: insert_commute)
      also have "\<dots> = max s (Max (insert b ?S))"
        by (simp add: Max_insert)
      also have "\<dots> = Max (insert b ?S)"
        using False by (simp add: max_def) (meson List.finite_set Max_ge finite_insert insertI1 order_trans not_le)
      finally show ?thesis using Cons.IH [of b t] Some False
        by (simp add: a gallery_scores_Cons)
    qed
  qed
qed

lemma identify_loop_unchanged:
  "identify_loop run probe g b t0 = (b, t') \<Longrightarrow>
     t' = t0 \<and> (\<forall>s \<in> set (gallery_scores run probe g). s \<le> b)"
proof (induction g arbitrary: t0)
  case Nil
  then show ?case by (simp add: gallery_scores_Nil)
next
  case (Cons a g)
  obtain tid p where a: "a = (tid, p)" by (cases a)
  show ?case
  proof (cases "match_fingerprints run probe p")
    case None
    then show ?thesis using Cons by (simp add: a gallery_scores_Cons)
  next
    case (Some s)
    show ?thesis
    proof (cases "s > b")
      case True
      then have "identify_loop run probe g s (Some tid) = (b, t')"
        using Cons.prems Some by (simp add: a)
      then have "s \<le> b" using identify_loop_ge [of s run probe g "Some tid"] by simp
      then show ?thesis using True by simp
    next
      case False
      then show ?thesis using Cons Some by (simp add: a gallery_scores_Cons)
    qed
  qed
qed


lemma identify_loop_first_max:
  "identify_loop run probe g b t0 = (s, Some t) \<Longrightarrow> b < s \<Longrightarrow>
     \<exists>pre p post. g = pre @ (t, p) # post
       \<and> match_fingerprints run probe p = Some s
       \<and> (\<forall>s' \<in> set (gallery_scores run probe pre). s' < s)
       \<and> (\<forall>s' \<in> set (gallery_scores run probe post). s' \<le> s)"
proof (induction g arbitrary: b t0)
  case Nil
  then show ?case by simp
next
  case (Cons a g)
  obtain tid p where a: "a = (tid, p)" by (cases a)
  have ext: "\<exists>pre q post. (tid, p) # g = pre @ (t, q) # post
       \<and> match_fingerprints run probe q = Some s
       \<and> (\<forall>s' \<in> set (gallery_scores run probe pre). s' < s)
       \<and> (\<forall>s' \<in> set (gallery_scores run probe post). s' \<le> s)"
    if dec: "\<exists>pre q post. g = pre @ (t, q) # post
       \<and> match_fingerprints run probe q = Some s
       \<and> (\<forall>s' \<in> set (gallery_scores run probe pre). s' < s)
       \<and> (\<forall>s' \<in> set (gallery_scores run probe post). s' \<le> s)"
      and hd: "\<forall>s'. match_fingerprints run probe p = Some s' \<longrightarrow> s' < s"
  proof -
    from dec obtain pre q post where g: "g = pre @ (t, q) # post"
      and q: "match_fingerprints run probe q = Some s"
      and pre: "\<forall>s' \<in> set (gallery_scores run probe pre). s' < s"
      and post: "\<forall>s' \<in> set (gallery_scores run probe post). s' \<le> s"
      by blast
    have "(tid, p) # g = ((tid, p) # pre) @ (t, q) # post" using g by simp
    moreover have "\<forall>s' \<in> set (gallery_scores run probe ((tid, p) # pre)). s' < s"
      using pre hd by (auto simp: gallery_scores_Cons split: option.splits)
    ultimately show ?thesis using q post by blast
  qed
  show ?case
  proof (cases "match_fingerprints run probe p")
    case None
    then have "identify_loop run probe g b t0 = (s, Some t)"
      using Cons.prems by (simp add: a)
    from Cons.IH [OF this Cons.prems(2)] show ?thesis
      unfolding a using ext None by simp
  next
    case (Some s1)
    show ?thesis
    proof (cases "s1 > b")
      case True
      then have run1: "identify_loop run probe g s1 (Some tid) = (s, Some t)"
        using Cons.prems Some by (simp add: a)
      then have "s1 \<le> s" using identify_loop_ge [of s1 run probe g "Some tid"] by simp
      then consider "s1 < s" | "s1 = s" by linarith
      then show ?thesis
      proof cases
        case 1
        from Cons.IH [OF run1 1] show ?thesis
          unfolding a using ext Some 1 by simp
      next
        case 2
        then have "Some t = Some tid \<and> (\<forall>s' \<in> set (gallery_scores run probe g). s' \<le> s)"
          using identify_loop_unchanged [of run probe g s "Some tid" "Some t"] run1 by simp
        then have "(tid, p) # g = [] @ (t, p) # g
            \<and> match_fingerprints run probe p = Some s
            \<and> (\<forall>s' \<in> set (gallery_scores run probe []). s' < s)
            \<and> (\<forall>s' \<in> set (gallery_scores run probe g). s' \<le> s)"
          using Some 2 by (simp add: gallery_scores_Nil)
        then show ?thesis unfolding a by blast
      qed
    next
      case False
      then have "identify_loop run probe g b t0 = (s, Some t)"
        using Cons.prems Some by (simp add: a)
      from Cons.IH [OF this Cons.prems(2)] show ?thesis
        unfolding a using ext Some False Cons.prems(2) by simp
    qed
  qed
qed

lemma identify_loop_selected:
  assumes "identify_loop run probe g 0 None = (s, Some t)"
  shows "0 < s"
proof -
  have "0 \<le> s" using identify_loop_ge [of 0 run probe g None] assms by simp
  moreover have "s \<noteq> 0"
  proof
    assume "s = 0"
    then have "Some t = None"
      using identify_loop_unchanged [of run probe g 0 None "Some t"] assms by simp
    then show False by simp
  qed
  ultimately show ?thesis by simp
qed

lemma identify_Some_iff:
  "identify cfg run probe g = Some (tid, s) \<longleftrightarrow>
     identify_loop run probe g 0 None = (s, tid) \<and> match_threshold (fingerprint cfg) \<le> s"
  by (auto simp: identify_def split: prod.splits)

lemma identify_None_iff:
  "identify cfg run probe g = None \<longleftrightarrow>
     fst (identify_loop run probe g 0 None) < match_threshold (fingerprint cfg)"
  by (auto simp: identify_def split: prod.splits)

lemma gallery_scores_mem:
  "s \<in> set (gallery_scores run probe g) \<longleftrightarrow>
     (\<exists>t p. (t, p) \<in> set g \<and> match_fingerprints run probe p = Some s)"
proof (induction g)
  case Nil
  then show ?case by (simp add: gallery_scores_Nil)
next
  case (Cons a g)
  obtain tid q where a: "a = (tid, q)" by (cases a)
  show ?case
  proof (cases "match_fingerprints run probe q")
    case None
    then show ?thesis using Cons.IH by (auto simp: a gallery_scores_Cons)
  next
    case (Some s1)
    then show ?thesis using Cons.IH by (auto simp: a gallery_scores_Cons)
  qed
qed

lemma gallery_scores_matched_ok_Nil:
  "matched_ok run probe g = [] \<Longrightarrow> gallery_scores run probe g = []"
  by (induction g) (auto simp: matched_ok_def gallery_scores_Nil gallery_scores_Cons split: option.splits if_splits)

lemma identify_loop_improved:
  "identify_loop run probe g b t0 = (s, tid) \<Longrightarrow> b < s \<Longrightarrow> \<exists>t. tid = Some t"
proof (induction g arbitrary: b t0)
  case Nil
  then show ?case by simp
next
  case (Cons a g)
  obtain t1 p where a: "a = (t1, p)" by (cases a)
  show ?case
  proof (cases "match_fingerprints run probe p")
    case None
    then show ?thesis using Cons by (simp add: a)
  next
    case (Some s1)
    show ?thesis
    proof (cases "s1 > b")
      case True
      then have run1: "identify_loop run probe g s1 (Some t1) = (s, tid)"
        using Cons.prems Some by (simp add: a)
      show ?thesis
      proof (cases "s1 < s")
        case True
        from Cons.IH [OF run1 True] show ?thesis .
      next
        case False
        then have "s = s1"
          using identify_loop_ge [of s1 run probe g "Some t1"] run1 by simp
        then have "tid = Some t1"
          using identify_loop_unchanged [of run probe g s1 "Some t1" tid] run1 by simp
        then show ?thesis by simp
      qed
    next
      case False
      then show ?thesis using Cons Some by (simp add: a)
    qed
  qed
qed

lemma scen_match [simp]:
  "match_fingerprints scenario_bozorth3 p ''a'' = Some 42"
  "match_fingerprints scenario_bozorth3 p ''b'' = Some 41"
  "match_fingerprints scenario_bozorth3 p ''c'' = Some 42"
  "match_fingerprints scenario_bozorth3 p ''e'' = Some 40"
  "match_fingerprints scenario_bozorth3 p ''l'' = Some 30"
  "match_fingerprints scenario_bozorth3 p ''m'' = Some 20"
  "match_fingerprints scenario_bozorth3 p ''n'' = Some (- 3)"
  "match_fingerprints scenario_bozorth3 p ''f'' = None"
  "match_fingerprints scenario_bozorth3 p ''t'' = None"
  by (simp_all add: match_fingerprints_def scenario_bozorth3_def)

subsection \<open>Failed matcher calls\<close>

text \<open>
  Claim C7. A matcher call that fails (time-out, exception, non-zero return code,
  output that is no integer) is skipped and the scan goes on: \<open>identify\<close> is a total
  function, and its result over a gallery is its result over only those templates of
  the gallery whose matcher call succeeds.
\<close>

theorem identify_skips_failed_matches:
  "identify cfg run probe_xyt gallery_templates =
     identify cfg run probe_xyt (matched_ok run probe_xyt gallery_templates)"
  using identify_loop_matched_ok [of run probe_xyt gallery_templates 0 None]
  by (simp add: identify_def)

subsection \<open>The running best score starts at 0\<close>

text \<open>
  Claim C10. The running best score starts at 0 and is replaced only by a strictly
  greater score. So the best score of every scan is at least 0; a template that is
  returned has a score above 0 (a template scoring 0 or less is never selected); when
  no matcher call succeeds (in particular on an empty gallery) and the threshold is at
  most 0, the result is a match without template identifier and with score 0; and for a
  threshold above 0 the empty gallery gives no match.
\<close>

theorem identify_best_score_starts_at_zero:
  "0 \<le> fst (identify_loop run probe_xyt gallery_templates 0 None)
   \<and> (\<forall>tid s. identify cfg run probe_xyt gallery_templates = Some (tid, s) \<longrightarrow> 0 \<le> s)
   \<and> (\<forall>t s. identify cfg run probe_xyt gallery_templates = Some (Some t, s) \<longrightarrow>
         0 < s \<and> (\<exists>p. (t, p) \<in> set gallery_templates
                      \<and> match_fingerprints run probe_xyt p = Some s))
   \<and> (matched_ok run probe_xyt gallery_templates = []
        \<and> match_threshold (fingerprint cfg) \<le> 0 \<longrightarrow>
         identify cfg run probe_xyt gallery_templates = Some (None, 0))
   \<and> (0 < match_threshold (fingerprint cfg) \<longrightarrow> identify cfg run probe_xyt [] = None)"
proof (intro conjI allI impI)
  show z: "0 \<le> fst (identify_loop run probe_xyt gallery_templates 0 None)"
    by (rule identify_loop_ge)
  show "0 \<le> s" if "identify cfg run probe_xyt gallery_templates = Some (tid, s)" for tid s
    using that z by (simp add: identify_Some_iff)
  show "0 < s" if "identify cfg run probe_xyt gallery_templates = Some (Some t, s)" for t s
    using that identify_loop_selected [of run probe_xyt gallery_templates s t]
    by (simp add: identify_Some_iff)
  show "\<exists>p. (t, p) \<in> set gallery_templates \<and> match_fingerprints run probe_xyt p = Some s"
    if "identify cfg run probe_xyt gallery_templates = Some (Some t, s)" for t s
  proof -
    have l: "identify_loop run probe_xyt gallery_templates 0 None = (s, Some t)"
      using that by (simp add: identify_Some_iff)
    from identify_loop_first_max [OF l identify_loop_selected [OF l]]
    show ?thesis by auto
  qed
  show "identify cfg run probe_xyt gallery_templates = Some (None, 0)"
    if "matched_ok run probe_xyt gallery_templates = []
        \<and> match_threshold (fingerprint cfg) \<le> 0"
    using that identify_loop_matched_ok [of run probe_xyt gallery_templates 0 None]
    by (simp add: identify_def)
  show "identify cfg run probe_xyt [] = None" if "0 < match_threshold (fingerprint cfg)"
    using that by (simp add: identify_def)
qed


theorem identify_best_score_starts_at_zero_witness:
  "identify default_config scenario_bozorth3 ''p'' [(1, ''n''), (2, ''a'')] = Some (Some 2, 42)
   \<and> (0::int) < 42
   \<and> (\<exists>p. (2, p) \<in> set [(1::int, ''n''), (2, ''a'')]
          \<and> match_fingerprints scenario_bozorth3 ''p'' p = Some 42)
   \<and> matched_ok scenario_bozorth3 ''p'' [(7, ''f''), (8, ''t'')] = []
   \<and> match_threshold (fingerprint zero_threshold_config) \<le> 0
   \<and> identify zero_threshold_config scenario_bozorth3 ''p'' [(7, ''f''), (8, ''t'')]
       = Some (None, 0)
   \<and> 0 < match_threshold (fingerprint default_config)
   \<and> identify default_config scenario_bozorth3 ''p'' [] = None"
proof -
  have sel: "identify default_config scenario_bozorth3 ''p'' [(1, ''n''), (2, ''a'')]
      = Some (Some 2, 42)"
    by (simp add: identify_def match_fingerprints_def scenario_bozorth3_def default_config_def)
  have none: "matched_ok scenario_bozorth3 ''p'' [(7, ''f''), (8, ''t'')] = []"
    by (simp add: matched_ok_def match_fingerprints_def scenario_bozorth3_def)
  have zero: "match_threshold (fingerprint zero_threshold_config) \<le> 0"
    by (simp add: zero_threshold_config_def)
  have pos: "0 < match_threshold (fingerprint default_config)"
    by (simp add: default_config_def)
  show ?thesis
    using sel none zero pos
      identify_best_score_starts_at_zero
        [of scenario_bozorth3 "''p''" "[(1, ''n''), (2, ''a'')]" default_config]
      identify_best_score_starts_at_zero
        [of scenario_bozorth3 "''p''" "[(7, ''f''), (8, ''t'')]" zero_threshold_config]
    by simp
qed

subsection \<open>The threshold decision\<close>

text \<open>
  Claim C4, as the code has it. \<open>identify\<close> returns \<open>(template_id, best_score)\<close>, with
  the identifier of the template and not of the user, exactly when the best score is
  greater than or equal to \<open>match_threshold\<close>; the best score is the largest score a
  matcher call delivered, or 0 when none is above 0. For a threshold above 0 that is
  exactly when some template of the gallery scores at least the threshold, and the score
  returned is then the maximum over the gallery, reached by the template returned.
  Otherwise the result is \<open>None\<close>.
\<close>

theorem identify_threshold_decision:
  "(identify cfg run probe_xyt gallery_templates \<noteq> None)
     = (match_threshold (fingerprint cfg)
          \<le> Max (insert 0 (set (gallery_scores run probe_xyt gallery_templates))))
   \<and> (\<forall>tid s. identify cfg run probe_xyt gallery_templates = Some (tid, s) \<longrightarrow>
         s = Max (insert 0 (set (gallery_scores run probe_xyt gallery_templates))))
   \<and> (0 < match_threshold (fingerprint cfg) \<longrightarrow>
         (identify cfg run probe_xyt gallery_templates \<noteq> None)
           = (\<exists>s \<in> set (gallery_scores run probe_xyt gallery_templates).
                match_threshold (fingerprint cfg) \<le> s))
   \<and> (0 < match_threshold (fingerprint cfg) \<longrightarrow>
         (\<forall>tid s. identify cfg run probe_xyt gallery_templates = Some (tid, s) \<longrightarrow>
            s = Max (set (gallery_scores run probe_xyt gallery_templates))
            \<and> (\<exists>t q. tid = Some t \<and> (t, q) \<in> set gallery_templates
                 \<and> match_fingerprints run probe_xyt q = Some s)))"
proof -
  let ?S = "set (gallery_scores run probe_xyt gallery_templates)"
  let ?thr = "match_threshold (fingerprint cfg)"
  let ?r = "identify cfg run probe_xyt gallery_templates"
  have best: "fst (identify_loop run probe_xyt gallery_templates 0 None) = Max (insert 0 ?S)"
    by (rule identify_loop_fst)
  have c1: "(?r \<noteq> None) = (?thr \<le> Max (insert 0 ?S))"
  proof -
    have "(?r = None) = (fst (identify_loop run probe_xyt gallery_templates 0 None) < ?thr)"
      by (rule identify_None_iff)
    then have e: "(?r = None) = (Max (insert 0 ?S) < ?thr)"
      unfolding best .
    show ?thesis by (simp only: e not_less)
  qed
  have c2: "s = Max (insert 0 ?S)" if "?r = Some (tid, s)" for tid s
  proof -
    have "identify_loop run probe_xyt gallery_templates 0 None = (s, tid)"
      using that by (simp only: identify_Some_iff)
    then have "fst (identify_loop run probe_xyt gallery_templates 0 None) = s"
      by (simp only: fst_conv)
    then show ?thesis unfolding best by (rule sym)
  qed
  have c3: "(?r \<noteq> None) = (\<exists>s \<in> ?S. ?thr \<le> s)" if pos: "0 < ?thr"
  proof -
    have "(?thr \<le> Max (insert 0 ?S)) = (\<exists>a \<in> insert 0 ?S. ?thr \<le> a)"
      by (rule Max_ge_iff) simp_all
    also have "\<dots> = (\<exists>s \<in> ?S. ?thr \<le> s)" using pos by auto
    finally show ?thesis by (simp only: c1)
  qed
  have c4: "s = Max ?S \<and> (\<exists>t q. tid = Some t \<and> (t, q) \<in> set gallery_templates
                 \<and> match_fingerprints run probe_xyt q = Some s)"
    if pos: "0 < ?thr" and r: "?r = Some (tid, s)" for tid s
  proof -
    have l: "identify_loop run probe_xyt gallery_templates 0 None = (s, tid)"
      and thr: "?thr \<le> s" using r by (simp_all only: identify_Some_iff)
    have spos: "0 < s" using pos thr by linarith
    from identify_loop_improved [OF l spos] obtain t where t: "tid = Some t" ..
    from identify_loop_first_max [OF l [unfolded t] spos]
    obtain pre q post where g: "gallery_templates = pre @ (t, q) # post"
      and q: "match_fingerprints run probe_xyt q = Some s" by blast
    have tq: "(t, q) \<in> set gallery_templates" unfolding g by simp
    have mem: "s \<in> ?S" unfolding gallery_scores_mem using tq q by blast
    have fin: "finite ?S" by (rule finite_set)
    have ne: "?S \<noteq> {}"
    proof
      assume "?S = {}"
      with mem have "s \<in> {}" by (simp only:)
      then show False by (rule emptyE)
    qed
    have ge: "s \<le> Max ?S" using fin mem by (rule Max_ge)
    have "s = Max (insert 0 ?S)" using c2 [OF r] .
    also have "\<dots> = max 0 (Max ?S)" using fin ne by (rule Max_insert)
    also have "\<dots> = Max ?S"
    proof (rule max_absorb2)
      show "0 \<le> Max ?S" using ge spos by linarith
    qed
    finally have "s = Max ?S" .
    then show ?thesis using t tq q by blast
  qed
  show ?thesis
  proof (intro conjI allI impI)
    show "(?r \<noteq> None) = (?thr \<le> Max (insert 0 ?S))" by (rule c1)
    show "s = Max (insert 0 ?S)" if "?r = Some (tid, s)" for tid s
      using that by (rule c2)
    show "(?r \<noteq> None) = (\<exists>s \<in> ?S. ?thr \<le> s)" if "0 < ?thr"
      using that by (rule c3)
    show "s = Max ?S" if "0 < ?thr" "?r = Some (tid, s)" for tid s
      using c4 [OF that] by (rule conjunct1)
    show "\<exists>t q. tid = Some t \<and> (t, q) \<in> set gallery_templates
                 \<and> match_fingerprints run probe_xyt q = Some s"
      if "0 < ?thr" "?r = Some (tid, s)" for tid s
      using c4 [OF that] by (rule conjunct2)
  qed
qed

theorem identify_threshold_decision_witness:
  "0 < match_threshold (fingerprint default_config)
   \<and> identify default_config scenario_bozorth3 ''p'' [(1, ''l''), (2, ''e'')] = Some (Some 2, 40)
   \<and> (40::int) = Max (set (gallery_scores scenario_bozorth3 ''p'' [(1, ''l''), (2, ''e'')]))
   \<and> match_threshold (fingerprint default_config) \<le> 40"
proof -
  have pos: "0 < match_threshold (fingerprint default_config)"
    by (simp add: default_config_def)
  have r: "identify default_config scenario_bozorth3 ''p'' [(1, ''l''), (2, ''e'')]
      = Some (Some 2, 40)"
    by (simp add: identify_def default_config_def)
  have le: "match_threshold (fingerprint default_config) \<le> 40"
    by (simp add: default_config_def)
  have "0 < match_threshold (fingerprint default_config) \<longrightarrow>
      (\<forall>tid s. identify default_config scenario_bozorth3 ''p'' [(1, ''l''), (2, ''e'')]
           = Some (tid, s) \<longrightarrow>
         s = Max (set (gallery_scores scenario_bozorth3 ''p'' [(1, ''l''), (2, ''e'')]))
         \<and> (\<exists>t q. tid = Some t \<and> (t, q) \<in> set [(1, ''l''), (2, ''e'')]
              \<and> match_fingerprints scenario_bozorth3 ''p'' q = Some s))"
    using identify_threshold_decision
        [of default_config scenario_bozorth3 "''p''" "[(1, ''l''), (2, ''e'')]"]
    by (elim conjE)
  with pos r have "(40::int) = Max (set (gallery_scores scenario_bozorth3 ''p'' [(1, ''l''), (2, ''e'')]))"
    by blast
  with pos r le show ?thesis by blast
qed

text \<open>
  Claim C4, as stated, asks the no-match result to carry the maximum score. The result
  is \<open>None\<close> in both scans below, whose maximum scores are 30 and 20: the value returned
  does not tell them apart (the source writes the best score to the log only).
\<close>

theorem identify_no_match_drops_score:
  "identify default_config scenario_bozorth3 ''p'' [(1, ''l'')] = None
   \<and> identify default_config scenario_bozorth3 ''p'' [(1, ''m'')] = None
   \<and> gallery_scores scenario_bozorth3 ''p'' [(1, ''l'')] = [30]
   \<and> gallery_scores scenario_bozorth3 ''p'' [(1, ''m'')] = [20]"
  by (simp add: identify_def gallery_scores_Cons gallery_scores_Nil default_config_def)

subsection \<open>Equal best scores\<close>

text \<open>
  Claim C2, as the code has it. The running best is replaced only on a strictly greater
  score, so among templates with the same maximum score the one that comes first in the
  order of the gallery list is returned: every template before it scores strictly less,
  every template after it scores at most as much. \<open>identify\<close> is given template
  identifiers and paths only, neither owners nor creation times.
\<close>

theorem identify_first_best_wins:
  "identify cfg run probe_xyt gallery_templates = Some (Some t, s) \<Longrightarrow>
     \<exists>pre q post. gallery_templates = pre @ (t, q) # post
       \<and> match_fingerprints run probe_xyt q = Some s
       \<and> (\<forall>s' \<in> set (gallery_scores run probe_xyt pre). s' < s)
       \<and> (\<forall>s' \<in> set (gallery_scores run probe_xyt post). s' \<le> s)"
proof -
  assume r: "identify cfg run probe_xyt gallery_templates = Some (Some t, s)"
  then have l: "identify_loop run probe_xyt gallery_templates 0 None = (s, Some t)"
    by (simp add: identify_Some_iff)
  from identify_loop_first_max [OF l identify_loop_selected [OF l]] show ?thesis .
qed

theorem identify_first_best_wins_witness:
  "identify default_config scenario_bozorth3 ''p'' [(4, ''b''), (1, ''a''), (3, ''c'')]
     = Some (Some 1, 42)
   \<and> (\<exists>pre q post. [(4, ''b''), (1, ''a''), (3, ''c'')] = pre @ (1::int, q) # post
       \<and> match_fingerprints scenario_bozorth3 ''p'' q = Some 42
       \<and> (\<forall>s' \<in> set (gallery_scores scenario_bozorth3 ''p'' pre). s' < 42)
       \<and> (\<forall>s' \<in> set (gallery_scores scenario_bozorth3 ''p'' post). s' \<le> 42))"
proof -
  have r: "identify default_config scenario_bozorth3 ''p'' [(4, ''b''), (1, ''a''), (3, ''c'')]
      = Some (Some 1, 42)"
    by (simp add: identify_def default_config_def)
  show ?thesis
    by (rule conjI [OF r identify_first_best_wins [OF r]])
qed

text \<open>
  Claim C2, as stated, makes the winner independent of the order of the gallery and
  prefers the user with more templates. Templates 1 and 3 both score 42; user 20, the
  owner of template 3, has two templates and user 10, the owner of template 1, has one.
  The scan returns template 1 for one order of the gallery and template 3 for another.
\<close>

theorem identify_tie_follows_gallery_order:
  "identify default_config scenario_bozorth3 ''p'' [(1, ''a''), (3, ''c''), (4, ''b'')]
     = Some (Some 1, 42)
   \<and> identify default_config scenario_bozorth3 ''p'' [(4, ''b''), (3, ''c''), (1, ''a'')]
     = Some (Some 3, 42)
   \<and> gallery_scores scenario_bozorth3 ''p'' [(1, ''a''), (3, ''c''), (4, ''b'')] = [42, 42, 41]
   \<and> map t_id (get_user_templates 10 scenario_db) = [1]
   \<and> map t_id (get_user_templates 20 scenario_db) = [3, 4]"
  by (simp add: identify_def gallery_scores_Cons gallery_scores_Nil default_config_def
      get_user_templates_def scenario_db_def)

section \<open>Properties of the sync worker\<close>

lemma prepare_punch_data_fst:
  "fst (prepare_punch_data batch w) = payload_entries (db w) batch"
proof (induction batch arbitrary: w)
  case Nil
  then show ?case by (simp add: payload_entries_def map_filter_simps)
next
  case (Cons punch rest)
  show ?case
  proof (cases "get_user (p_user_id punch) (db w)")
    case None
    then show ?thesis
      using Cons.IH [of "w\<lparr>db_calls := db_calls w @ [GetUser (p_user_id punch)]\<rparr>"]
      by (simp add: db_get_user_def payload_entries_def map_filter_simps)
  next
    case (Some user)
    then show ?thesis
      using Cons.IH [of "w\<lparr>db_calls := db_calls w @ [GetUser (p_user_id punch)]\<rparr>"]
      by (simp add: db_get_user_def payload_entries_def map_filter_simps case_prod_unfold)
  qed
qed

lemma prepare_punch_data_db:
  "db (snd (prepare_punch_data batch w)) = db w
   \<and> requests (snd (prepare_punch_data batch w)) = requests w"
proof (induction batch arbitrary: w)
  case Nil
  then show ?case by simp
next
  case (Cons punch rest)
  show ?case
    using Cons.IH [of "w\<lparr>db_calls := db_calls w @ [GetUser (p_user_id punch)]\<rparr>"]
    by (cases "get_user (p_user_id punch) (db w)")
       (simp_all add: db_get_user_def case_prod_unfold)
qed

lemma payload_entries_in_payload:
  "payload_entries d batch = payload_entries d (in_payload d batch)
   \<and> length (payload_entries d batch) = length (in_payload d batch)"
  by (induction batch)
     (auto simp: payload_entries_def in_payload_def map_filter_simps split: option.splits)

lemma mark_errors_requests: "requests (mark_errors batch err w) = requests w"
  by (induction batch arbitrary: w) (simp_all add: db_mark_punch_sync_error_def)

lemma mark_errors_db:
  "db (mark_errors batch err w) =
     (db w)\<lparr>punches := map (\<lambda>p. if p_id p \<in> p_id ` set batch then as_error err p else p)
                           (punches (db w))\<rparr>"
proof (induction batch arbitrary: w)
  case Nil
  then show ?case by simp
next
  case (Cons punch rest)
  have "map (\<lambda>p. if p_id p \<in> p_id ` set rest then as_error err p else p)
          (map (\<lambda>p. if p_id p = p_id punch then as_error err p else p) ps)
        = map (\<lambda>p. if p_id p \<in> p_id ` set (punch # rest) then as_error err p else p) ps" for ps
    by (induction ps) (auto simp: as_error_def)
  then show ?case
    by (simp add: Cons.IH db_mark_punch_sync_error_def mark_punch_sync_error_def as_error_def)
qed

lemma get_unsynced_subset:
  "set (get_unsynced_punches limit d) \<subseteq> set (punches d)
   \<and> (\<forall>p \<in> set (get_unsynced_punches limit d). p_status p \<noteq> Synced)"
proof -
  have "set (take limit (filter (\<lambda>p. p_status p \<noteq> Synced) (punches d)))
      \<subseteq> set (filter (\<lambda>p. p_status p \<noteq> Synced) (punches d))"
    by (rule set_take_subset)
  then show ?thesis by (auto simp: get_unsynced_punches_def)
qed

lemma sync_now_run:
  assumes "enabled (server cfg)" and "url (server cfg) \<noteq> []"
    and "get_unsynced_punches 100 (db w) \<noteq> []"
  shows "fst (sync_now cfg ep w) =
           (case ep (sync_request cfg (payload_entries (db w) (get_unsynced_punches 100 (db w)))) of
              TransportError e \<Rightarrow> False
            | Response status_code text \<Rightarrow> status_code = 200)"
    and "db (snd (sync_now cfg ep w)) =
           (case ep (sync_request cfg (payload_entries (db w) (get_unsynced_punches 100 (db w)))) of
              TransportError e \<Rightarrow> db w
            | Response status_code text \<Rightarrow>
                if status_code = 200
                then mark_punches_synced (map p_id (get_unsynced_punches 100 (db w))) (db w)
                else (db w)\<lparr>punches :=
                       map (\<lambda>p. if p_id p \<in> p_id ` set (get_unsynced_punches 100 (db w))
                                then as_error (''Server returned '' @ str_int status_code
                                                 @ '': '' @ text) p
                                else p)
                         (punches (db w))\<rparr>)"
    and "requests (snd (sync_now cfg ep w)) =
           requests w @ [sync_request cfg (payload_entries (db w) (get_unsynced_punches 100 (db w)))]"
  using assms
  by (simp_all add: sync_now_def db_get_unsynced_punches_def client_post_def case_prod_unfold
      prepare_punch_data_fst prepare_punch_data_db mark_errors_db mark_errors_requests
      db_mark_punches_synced_def split: http_outcome.splits)

lemma scenario_unsynced:
  "get_unsynced_punches 100 scenario_db = punches scenario_db"
  by (simp add: get_unsynced_punches_def scenario_db_def)

lemma scenario_payload:
  "map e_user_id (payload_entries scenario_db (punches scenario_db)) = [10]"
  by (simp add: payload_entries_def map_filter_simps get_user_def scenario_db_def
      punch_entry_of_def)

lemma scenario_enabled:
  "enabled (server scenario_config)" "url (server scenario_config) \<noteq> []"
  "get_unsynced_punches 100 (db scenario_world) \<noteq> []"
  by (simp_all add: scenario_config_def default_config_def scenario_world_def
      get_unsynced_punches_def scenario_db_def)

lemma scenario_world_db: "db scenario_world = scenario_db"
  by (simp add: scenario_world_def)

lemma str_int_500: "str_int 500 = ''500''"
  by (simp add: str_int_def str_nat.simps)

subsection \<open>A batch the endpoint accepts\<close>

text \<open>
  Claim C1, evaluated on the code. The store holds the unsynced punches 1 and 2; the
  user of punch 2 cannot be resolved, so the payload holds punch 1 alone. The endpoint
  answers 200. The cycle succeeds, one request is sent with the one entry of user 10,
  and both punches are marked synced: the identifiers handed to \<open>mark_punches_synced\<close>
  are those of the whole batch, not those of the payload. Punch 2 was never uploaded and
  is no longer among the unsynced punches.
\<close>

theorem sync_now_marks_unsent_punch_synced:
  "map p_id (get_unsynced_punches 100 (db scenario_world)) = [1, 2]
   \<and> map p_id (in_payload (db scenario_world) (get_unsynced_punches 100 (db scenario_world))) = [1]
   \<and> fst (sync_now scenario_config accepting_endpoint scenario_world)
   \<and> requests (snd (sync_now scenario_config accepting_endpoint scenario_world))
       = [sync_request scenario_config
            (payload_entries (db scenario_world) (get_unsynced_punches 100 (db scenario_world)))]
   \<and> map e_user_id
        (payload_entries (db scenario_world) (get_unsynced_punches 100 (db scenario_world))) = [10]
   \<and> map p_id (punches (db (snd (sync_now scenario_config accepting_endpoint scenario_world))))
       = [1, 2]
   \<and> map p_status (punches (db (snd (sync_now scenario_config accepting_endpoint scenario_world))))
       = [Synced, Synced]"
proof -
  note run = sync_now_run [OF scenario_enabled, of accepting_endpoint]
  have d: "db (snd (sync_now scenario_config accepting_endpoint scenario_world))
      = mark_punches_synced (map p_id (punches scenario_db)) scenario_db"
    using run(2) by (simp add: accepting_endpoint_def scenario_world_db scenario_unsynced)
  have a: "fst (sync_now scenario_config accepting_endpoint scenario_world)"
    using run(1) by (simp add: accepting_endpoint_def)
  have b: "requests (snd (sync_now scenario_config accepting_endpoint scenario_world))
       = [sync_request scenario_config
            (payload_entries (db scenario_world) (get_unsynced_punches 100 (db scenario_world)))]"
    using run(3) by (simp add: scenario_world_def)
  have c: "map p_id (get_unsynced_punches 100 (db scenario_world)) = [1, 2]"
    unfolding scenario_world_db scenario_unsynced by (simp add: scenario_db_def)
  have e: "map p_id (in_payload (db scenario_world) (get_unsynced_punches 100 (db scenario_world))) = [1]"
    unfolding scenario_world_db scenario_unsynced
    by (simp add: in_payload_def get_user_def scenario_db_def)
  have f: "map e_user_id
        (payload_entries (db scenario_world) (get_unsynced_punches 100 (db scenario_world))) = [10]"
    unfolding scenario_world_db scenario_unsynced by (rule scenario_payload)
  have g: "map p_id (punches (mark_punches_synced (map p_id (punches scenario_db)) scenario_db)) = [1, 2]"
    and h: "map p_status (punches (mark_punches_synced (map p_id (punches scenario_db)) scenario_db))
       = [Synced, Synced]"
    by (simp_all add: mark_punches_synced_def scenario_db_def)
  show ?thesis unfolding d using a b c e f g h by simp
qed

subsection \<open>A batch that fails\<close>

text \<open>
  Claim C3, as the code has it. Let sync be enabled with a server address, and the batch
  be non-empty. When the endpoint answers with a status other than 200, the cycle
  returns failure, every punch of the batch is marked error with the detail
  \<open>Server returned <status>: <body>\<close>, and no punch becomes synced. When the transport
  raises, the cycle returns failure and the database is left as it was: no punch is
  marked, neither error nor synced.
\<close>

theorem sync_now_failure:
  assumes "enabled (server cfg)" and "url (server cfg) \<noteq> []"
    and "get_unsynced_punches 100 (db w) \<noteq> []"
  shows
    "(ep (sync_request cfg (payload_entries (db w) (get_unsynced_punches 100 (db w))))
        = Response status_code text \<and> status_code \<noteq> 200 \<longrightarrow>
        \<not> fst (sync_now cfg ep w)
        \<and> punches (db (snd (sync_now cfg ep w))) =
            map (\<lambda>p. if p_id p \<in> p_id ` set (get_unsynced_punches 100 (db w))
                     then as_error (''Server returned '' @ str_int status_code @ '': '' @ text) p
                     else p)
              (punches (db w))
        \<and> (\<forall>p \<in> set (get_unsynced_punches 100 (db w)).
              as_error (''Server returned '' @ str_int status_code @ '': '' @ text) p
                \<in> set (punches (db (snd (sync_now cfg ep w)))))
        \<and> (\<forall>q \<in> set (punches (db (snd (sync_now cfg ep w)))).
              p_status q = Synced \<longrightarrow> q \<in> set (punches (db w))))
     \<and> (ep (sync_request cfg (payload_entries (db w) (get_unsynced_punches 100 (db w))))
          = TransportError e \<longrightarrow>
          \<not> fst (sync_now cfg ep w) \<and> db (snd (sync_now cfg ep w)) = db w)"
proof (intro conjI impI)
  let ?batch = "get_unsynced_punches 100 (db w)"
  let ?req = "sync_request cfg (payload_entries (db w) ?batch)"
  let ?err = "''Server returned '' @ str_int status_code @ '': '' @ text"
  let ?w' = "snd (sync_now cfg ep w)"
  let ?mark = "\<lambda>p. if p_id p \<in> p_id ` set ?batch then as_error ?err p else p"
  note run = sync_now_run [OF assms, of ep]
  {
    assume a: "ep ?req = Response status_code text \<and> status_code \<noteq> 200"
    show "\<not> fst (sync_now cfg ep w)" using run(1) a by simp
    show eq: "punches (db ?w') = map ?mark (punches (db w))"
      using run(2) a by simp
    show "\<forall>p \<in> set ?batch. as_error ?err p \<in> set (punches (db ?w'))"
    proof
      fix p assume p: "p \<in> set ?batch"
      then have "p \<in> set (punches (db w))"
        using get_unsynced_subset [of 100 "db w"] by blast
      then have "?mark p \<in> ?mark ` set (punches (db w))" by (rule imageI)
      then have "?mark p \<in> set (map ?mark (punches (db w)))" by (simp only: set_map)
      moreover have "?mark p = as_error ?err p" using p by simp
      ultimately show "as_error ?err p \<in> set (punches (db ?w'))" unfolding eq by simp
    qed
    show "\<forall>q \<in> set (punches (db ?w')). p_status q = Synced \<longrightarrow> q \<in> set (punches (db w))"
    proof (intro ballI impI)
      fix q assume q: "q \<in> set (punches (db ?w'))" and s: "p_status q = Synced"
      from q obtain p where p: "p \<in> set (punches (db w))" and qp: "q = ?mark p"
        unfolding eq by auto
      have "?mark p = p"
      proof (rule ccontr)
        assume "?mark p \<noteq> p"
        then have "?mark p = as_error ?err p" by (simp split: if_splits)
        then show False using s qp by (simp add: as_error_def)
      qed
      then show "q \<in> set (punches (db w))" using p qp by simp
    qed
  }
  {
    assume a: "ep ?req = TransportError e"
    show "\<not> fst (sync_now cfg ep w)" using run(1) a by simp
    show "db ?w' = db w" using run(2) a by simp
  }
qed

theorem sync_now_failure_witness:
  "enabled (server scenario_config) \<and> url (server scenario_config) \<noteq> []
   \<and> get_unsynced_punches 100 (db scenario_world) \<noteq> []
   \<and> failing_endpoint
        (sync_request scenario_config
           (payload_entries (db scenario_world) (get_unsynced_punches 100 (db scenario_world))))
       = Response 500 ''boom''
   \<and> (500::int) \<noteq> 200
   \<and> \<not> fst (sync_now scenario_config failing_endpoint scenario_world)
   \<and> map p_status (punches (db (snd (sync_now scenario_config failing_endpoint scenario_world))))
       = [SyncError, SyncError]
   \<and> map p_sync_error (punches (db (snd (sync_now scenario_config failing_endpoint scenario_world))))
       = [Some ''Server returned 500: boom'', Some ''Server returned 500: boom'']
   \<and> unreachable_endpoint
        (sync_request scenario_config
           (payload_entries (db scenario_world) (get_unsynced_punches 100 (db scenario_world))))
       = TransportError ''connection refused''
   \<and> \<not> fst (sync_now scenario_config unreachable_endpoint scenario_world)
   \<and> db (snd (sync_now scenario_config unreachable_endpoint scenario_world)) = db scenario_world"
proof -
  note f = sync_now_failure [OF scenario_enabled, of failing_endpoint 500 "''boom''"]
  note u = sync_now_failure [OF scenario_enabled, of unreachable_endpoint _ _ "''connection refused''"]
  have r: "failing_endpoint
        (sync_request scenario_config
           (payload_entries (db scenario_world) (get_unsynced_punches 100 (db scenario_world))))
       = Response 500 ''boom''"
    by (simp add: failing_endpoint_def)
  have t: "unreachable_endpoint
        (sync_request scenario_config
           (payload_entries (db scenario_world) (get_unsynced_punches 100 (db scenario_world))))
       = TransportError ''connection refused''"
    by (simp add: unreachable_endpoint_def)
  have f1: "\<not> fst (sync_now scenario_config failing_endpoint scenario_world)"
    and f2: "punches (db (snd (sync_now scenario_config failing_endpoint scenario_world))) =
            map (\<lambda>p. if p_id p \<in> p_id ` set (get_unsynced_punches 100 (db scenario_world))
                     then as_error (''Server returned '' @ str_int 500 @ '': '' @ ''boom'') p
                     else p)
              (punches (db scenario_world))"
    using f r by simp_all
  have u1: "\<not> fst (sync_now scenario_config unreachable_endpoint scenario_world)"
    and u2: "db (snd (sync_now scenario_config unreachable_endpoint scenario_world)) = db scenario_world"
    using u t by simp_all
  have m1: "map p_status (punches (db (snd (sync_now scenario_config failing_endpoint scenario_world))))
       = [SyncError, SyncError]"
    unfolding f2 scenario_world_db scenario_unsynced
    by (simp add: scenario_db_def as_error_def)
  have m2: "map p_sync_error (punches (db (snd (sync_now scenario_config failing_endpoint scenario_world))))
       = [Some ''Server returned 500: boom'', Some ''Server returned 500: boom'']"
    unfolding f2 scenario_world_db scenario_unsynced str_int_500
    by (simp add: scenario_db_def as_error_def)
  show ?thesis
    using scenario_enabled r t f1 u1 u2 m1 m2 by simp
qed

text \<open>
  Claim C3, as stated, has every punch of the batch marked error also when the
  transport raises. With the endpoint out of reach the cycle fails and punches 1 and 2
  keep the status unsynced and no error text.
\<close>

theorem sync_now_transport_error_marks_nothing:
  "map p_id (get_unsynced_punches 100 (db scenario_world)) = [1, 2]
   \<and> unreachable_endpoint
        (sync_request scenario_config
           (payload_entries (db scenario_world) (get_unsynced_punches 100 (db scenario_world))))
       = TransportError ''connection refused''
   \<and> \<not> fst (sync_now scenario_config unreachable_endpoint scenario_world)
   \<and> map p_status (punches (db (snd (sync_now scenario_config unreachable_endpoint scenario_world))))
       = [Unsynced, Unsynced]
   \<and> map p_sync_error (punches (db (snd (sync_now scenario_config unreachable_endpoint scenario_world))))
       = [None, None]"
proof -
  note run = sync_now_run [OF scenario_enabled, of unreachable_endpoint]
  have d: "db (snd (sync_now scenario_config unreachable_endpoint scenario_world)) = scenario_db"
    using run(2) by (simp add: unreachable_endpoint_def scenario_world_db)
  have "\<not> fst (sync_now scenario_config unreachable_endpoint scenario_world)"
    using run(1) by (simp add: unreachable_endpoint_def)
  moreover have "map p_id (get_unsynced_punches 100 (db scenario_world)) = [1, 2]"
    unfolding scenario_world_db scenario_unsynced by (simp add: scenario_db_def)
  moreover have "map p_status (punches scenario_db) = [Unsynced, Unsynced]"
    and "map p_sync_error (punches scenario_db) = [None, None]"
    by (simp_all add: scenario_db_def)
  ultimately show ?thesis unfolding d by (simp add: unreachable_endpoint_def)
qed

subsection \<open>Sync disabled\<close>

lemma sync_now_disabled: "\<not> enabled (server cfg) \<Longrightarrow> sync_now cfg ep w = (True, w)"
  by (simp add: sync_now_def)

lemma sync_loop_disabled:
  "\<not> enabled (server cfg) \<Longrightarrow> snd (sync_loop cfg eps retry_count w) = w"
  by (induction eps arbitrary: retry_count w)
     (simp_all add: sync_now_disabled case_prod_unfold)

text \<open>
  Claim C8. With sync disabled by configuration, \<open>sync_now\<close> returns \<open>True\<close> and leaves
  the world as it was: no database call is logged (nothing read, nothing marked) and no
  request is sent. \<open>start\<close> returns at once and leaves the worker as it was, so no loop
  task exists; and a loop, were it to run, would leave the world untouched as well.
\<close>

theorem sync_disabled_touches_nothing:
  assumes "\<not> enabled (server cfg)"
  shows "sync_now cfg ep w = (True, w)
         \<and> start cfg wk = wk
         \<and> snd (sync_loop cfg eps retry_count w) = w"
  using assms sync_now_disabled [of cfg ep w] sync_loop_disabled [of cfg eps retry_count w]
  by (simp add: start_def)

theorem sync_disabled_touches_nothing_witness:
  "\<not> enabled (server default_config)
   \<and> sync_now default_config accepting_endpoint scenario_world = (True, scenario_world)
   \<and> start default_config \<lparr> running = False, task = None \<rparr> = \<lparr> running = False, task = None \<rparr>
   \<and> snd (sync_loop default_config [accepting_endpoint, accepting_endpoint] 0 scenario_world)
       = scenario_world"
proof -
  have d: "\<not> enabled (server default_config)" by (simp add: default_config_def)
  show ?thesis
    using d sync_disabled_touches_nothing [OF d, of accepting_endpoint scenario_world
        "\<lparr> running = False, task = None \<rparr>" "[accepting_endpoint, accepting_endpoint]" 0]
    by blast
qed

subsection \<open>Nothing to sync\<close>

lemma sync_now_empty:
  assumes "get_unsynced_punches 100 (db w) = []"
  shows "fst (sync_now cfg ep w)" and "db (snd (sync_now cfg ep w)) = db w"
    and "requests (snd (sync_now cfg ep w)) = requests w"
  using assms by (simp_all add: sync_now_def db_get_unsynced_punches_def)

text \<open>
  Claim C9. When no punch is unsynced, \<open>sync_now\<close> returns \<open>True\<close>, the database is
  unchanged and no request is sent; the same holds for a second call right after the
  first, whatever the endpoint would answer.
\<close>

theorem sync_now_empty_is_noop:
  assumes "get_unsynced_punches 100 (db w) = []"
  shows "fst (sync_now cfg ep w)
         \<and> db (snd (sync_now cfg ep w)) = db w
         \<and> requests (snd (sync_now cfg ep w)) = requests w
         \<and> fst (sync_now cfg ep' (snd (sync_now cfg ep w)))
         \<and> db (snd (sync_now cfg ep' (snd (sync_now cfg ep w)))) = db w
         \<and> requests (snd (sync_now cfg ep' (snd (sync_now cfg ep w)))) = requests w"
proof -
  note first = sync_now_empty [OF assms, of cfg ep]
  have again: "get_unsynced_punches 100 (db (snd (sync_now cfg ep w))) = []"
    using assms first(2) by simp
  note second = sync_now_empty [OF again, of cfg ep']
  show ?thesis using first second by simp
qed

theorem sync_now_empty_is_noop_witness:
  "get_unsynced_punches 100 (db drained_world) = []
   \<and> fst (sync_now scenario_config accepting_endpoint drained_world)
   \<and> db (snd (sync_now scenario_config accepting_endpoint drained_world)) = db drained_world
   \<and> requests (snd (sync_now scenario_config accepting_endpoint drained_world)) = []
   \<and> fst (sync_now scenario_config failing_endpoint
            (snd (sync_now scenario_config accepting_endpoint drained_world)))
   \<and> db (snd (sync_now scenario_config failing_endpoint
                 (snd (sync_now scenario_config accepting_endpoint drained_world))))
       = db drained_world
   \<and> requests (snd (sync_now scenario_config failing_endpoint
                 (snd (sync_now scenario_config accepting_endpoint drained_world)))) = []"
proof -
  have e: "get_unsynced_punches 100 (db drained_world) = []"
    by (simp add: get_unsynced_punches_def drained_world_def)
  have r: "requests drained_world = []" by (simp add: drained_world_def)
  show ?thesis
    using e sync_now_empty_is_noop [OF e, of scenario_config accepting_endpoint failing_endpoint]
    unfolding r by blast
qed

subsection \<open>Backoff\<close>

lemma str_nat_length: "0 < k \<Longrightarrow> n < 10 ^ k \<Longrightarrow> length (str_nat n) \<le> k"
proof (induction k arbitrary: n)
  case 0
  then show ?case by simp
next
  case (Suc k)
  show ?case
  proof (cases "n < 10")
    case True
    then show ?thesis by (simp add: str_nat.simps [of n])
  next
    case False
    then have k: "0 < k" using Suc.prems(2) by (cases k) simp_all
    have "n div 10 < 10 ^ k" using Suc.prems(2) by (simp add: less_mult_imp_div_less mult.commute)
    from Suc.IH [OF k this] show ?thesis using False by (simp add: str_nat.simps [of n])
  qed
qed

lemma float_overflow_bound_le: "float_overflow_bound \<le> 10 ^ 4300"
proof -
  have "(2::int) ^ 1024 \<le> 10 ^ 1024" by (rule power_mono) simp_all
  also have "\<dots> \<le> 10 ^ 4300" by (rule power_increasing) simp_all
  finally have "(2::int) ^ 1024 \<le> 10 ^ 4300" .
  moreover have "(0::int) \<le> 2 ^ 970" by simp
  ultimately show ?thesis unfolding float_overflow_bound_def by linarith
qed

lemma float_overflow_bound_ge: "2 ^ 1023 \<le> float_overflow_bound"
proof -
  have "(2::int) ^ 970 \<le> 2 ^ 1023" by (rule power_increasing) simp_all
  moreover have "(2::int) ^ 1024 = 2 * 2 ^ 1023" by (simp add: power_Suc [symmetric] del: power_Suc)
  ultimately show ?thesis unfolding float_overflow_bound_def by linarith
qed

lemma str_int_length:
  assumes "\<bar>i\<bar> < 10 ^ k" and "0 < k"
  shows "length (str_nat (nat \<bar>i\<bar>)) \<le> k"
proof -
  have "nat \<bar>i\<bar> < nat (10 ^ k)" using assms(1) by (simp only: nat_less_eq_zless abs_ge_zero)
  also have "nat ((10::int) ^ k) = 10 ^ k" by (simp add: nat_power_eq)
  finally show ?thesis using assms(2) by (intro str_nat_length)
qed

lemma no_str_raise: "\<bar>i\<bar> < float_overflow_bound \<Longrightarrow> \<not> str_raises i"
proof -
  assume "\<bar>i\<bar> < float_overflow_bound"
  then have "\<bar>i\<bar> < 10 ^ 4300" using float_overflow_bound_le by (rule order_less_le_trans)
  then have "length (str_nat (nat \<bar>i\<bar>)) \<le> 4300" by (rule str_int_length) (rule zero_less_numeral)
  then show ?thesis unfolding str_raises_def int_max_str_digits_def by (rule leD)
qed

lemma asyncio_sleep_int: "n < float_overflow_bound \<Longrightarrow> asyncio_sleep (PyInt n) = Inr (PyInt n)"
  by (simp add: asyncio_sleep_def float_overflows_def)

lemma sync_loop_body_success:
  "sync_interval_seconds (server cfg) < float_overflow_bound \<Longrightarrow>
     sync_loop_body cfg True retry_count = (0, PyInt (sync_interval_seconds (server cfg)))"
  by (simp add: sync_loop_body_def sync_loop_try_def asyncio_sleep_int)

lemma sync_loop_body_fst:
  "fst (sync_loop_body cfg True retry_count) = 0"
  "fst (sync_loop_body cfg False retry_count)
     = min (retry_count + 1) (retry_max_attempts (server cfg))"
  by (simp_all add: sync_loop_body_def sync_loop_try_def Let_def split: sum.splits)

lemma sync_loop_body_failure:
  assumes "0 \<le> min (retry_count + 1) (retry_max_attempts (server cfg))"
    and "min (retry_count + 1) (retry_max_attempts (server cfg)) < float_overflow_bound"
    and "\<bar>retry_backoff_base (server cfg)
           ^ nat (min (retry_count + 1) (retry_max_attempts (server cfg)))\<bar> < float_overflow_bound"
  shows "snd (sync_loop_body cfg False retry_count)
       = PyInt (retry_backoff_base (server cfg)
                  ^ nat (min (retry_count + 1) (retry_max_attempts (server cfg))))"
proof -
  let ?rc = "min (retry_count + 1) (retry_max_attempts (server cfg))"
  let ?b = "retry_backoff_base (server cfg) ^ nat ?rc"
  have "\<bar>?rc\<bar> < float_overflow_bound" using assms(1,2) by simp
  then have r: "\<not> str_raises ?rc" by (rule no_str_raise)
  have f: "\<not> format_raises (PyInt ?b)"
    using no_str_raise [OF assms(3)] by (simp add: format_raises_def)
  have s: "asyncio_sleep (PyInt ?b) = Inr (PyInt ?b)"
    using assms(3) by (intro asyncio_sleep_int) linarith
  have p: "py_pow (retry_backoff_base (server cfg)) ?rc = Inr (PyInt ?b)"
    using assms(1) by (simp add: py_pow_def)
  show ?thesis
    by (simp add: sync_loop_body_def sync_loop_try_def Let_def p r f s)
qed


lemma sync_loop_Cons:
  "fst (sync_loop cfg (ep # eps) retry_count w) =
     \<lparr> c_success = fst (sync_now cfg ep w),
       c_retry_count = fst (sync_loop_body cfg (fst (sync_now cfg ep w)) retry_count),
       c_sleep = snd (sync_loop_body cfg (fst (sync_now cfg ep w)) retry_count) \<rparr>
     # fst (sync_loop cfg eps
              (fst (sync_loop_body cfg (fst (sync_now cfg ep w)) retry_count))
              (snd (sync_now cfg ep w)))"
  by (simp add: case_prod_unfold)

lemma sync_loop_length: "length (fst (sync_loop cfg eps retry_count w)) = length eps"
  by (induction eps arbitrary: retry_count w) (simp_all add: case_prod_unfold)

lemma sync_loop_steps:
  "\<forall>i < length (fst (sync_loop cfg eps retry_count w)).
     (c_retry_count (fst (sync_loop cfg eps retry_count w) ! i),
      c_sleep (fst (sync_loop cfg eps retry_count w) ! i))
       = sync_loop_body cfg (c_success (fst (sync_loop cfg eps retry_count w) ! i))
           (if i = 0 then retry_count
            else c_retry_count (fst (sync_loop cfg eps retry_count w) ! (i - 1)))"
proof (induction eps arbitrary: retry_count w)
  case Nil
  then show ?case by simp
next
  case (Cons ep eps)
  let ?ok = "fst (sync_now cfg ep w)"
  let ?rc = "fst (sync_loop_body cfg ?ok retry_count)"
  let ?rest = "fst (sync_loop cfg eps ?rc (snd (sync_now cfg ep w)))"
  note IH = Cons.IH [of ?rc "snd (sync_now cfg ep w)"]
  show ?case
  proof (intro allI impI)
    fix i assume i: "i < length (fst (sync_loop cfg (ep # eps) retry_count w))"
    show "(c_retry_count (fst (sync_loop cfg (ep # eps) retry_count w) ! i),
           c_sleep (fst (sync_loop cfg (ep # eps) retry_count w) ! i))
        = sync_loop_body cfg (c_success (fst (sync_loop cfg (ep # eps) retry_count w) ! i))
           (if i = 0 then retry_count
            else c_retry_count (fst (sync_loop cfg (ep # eps) retry_count w) ! (i - 1)))"
    proof (cases i)
      case 0
      then show ?thesis unfolding sync_loop_Cons by simp
    next
      case (Suc j)
      then have j: "j < length ?rest" using i unfolding sync_loop_Cons by simp
      show ?thesis
      proof (cases j)
        case 0
        then show ?thesis using IH j Suc unfolding sync_loop_Cons by auto
      next
        case (Suc k)
        then show ?thesis using IH j \<open>i = Suc j\<close> unfolding sync_loop_Cons by auto
      qed
    qed
  qed
qed

lemma sync_loop_success_cycles:
  assumes "sync_interval_seconds (server cfg) < float_overflow_bound"
  shows "\<forall>c \<in> set (fst (sync_loop cfg eps retry_count w)).
     c_success c \<longrightarrow> c_retry_count c = 0 \<and> c_sleep c = PyInt (sync_interval_seconds (server cfg))"
proof (induction eps arbitrary: retry_count w)
  case Nil
  then show ?case by simp
next
  case (Cons ep eps)
  show ?case
    unfolding sync_loop_Cons using Cons.IH by (auto simp: sync_loop_body_success [OF assms])
qed

lemma power_below_cap:
  fixes b :: int
  assumes "\<bar>b\<bar> ^ n < B" and "k \<le> n" and "1 < B"
  shows "\<bar>b ^ k\<bar> < B"
proof (cases "b = 0")
  case True
  then show ?thesis using assms(3) by (cases k) simp_all
next
  case False
  then have "1 \<le> \<bar>b\<bar>" by simp
  then have "\<bar>b\<bar> ^ k \<le> \<bar>b\<bar> ^ n" using assms(2) by (intro power_increasing)
  then show ?thesis using assms(1) by (simp add: power_abs)
qed

lemma one_less_bound: "1 < float_overflow_bound"
proof -
  have "(1::int) < 2 ^ 1023" by (rule one_less_power) simp_all
  then show ?thesis using float_overflow_bound_ge by (rule less_le_trans)
qed

lemma sync_loop_failures:
  assumes "0 \<le> retry_max_attempts (server cfg)"
    and "retry_max_attempts (server cfg) < float_overflow_bound"
    and "\<bar>retry_backoff_base (server cfg)\<bar> ^ nat (retry_max_attempts (server cfg))
           < float_overflow_bound"
    and "0 \<le> retry_count"
    and "\<forall>c \<in> set (fst (sync_loop cfg eps retry_count w)). \<not> c_success c"
  shows "map c_retry_count (fst (sync_loop cfg eps retry_count w))
           = map (\<lambda>k. min (retry_count + 1 + int k) (retry_max_attempts (server cfg)))
               [0..<length eps]
         \<and> map c_sleep (fst (sync_loop cfg eps retry_count w))
           = map (\<lambda>k. PyInt (retry_backoff_base (server cfg)
                    ^ nat (min (retry_count + 1 + int k) (retry_max_attempts (server cfg)))))
               [0..<length eps]"
  using assms(4,5)
proof (induction eps arbitrary: retry_count w)
  case Nil
  then show ?case by simp
next
  case (Cons ep eps)
  let ?mx = "retry_max_attempts (server cfg)"
  let ?rc = "min (retry_count + 1) ?mx"
  have fail: "\<not> fst (sync_now cfg ep w)"
    using Cons.prems(2) unfolding sync_loop_Cons by simp
  have rc: "0 \<le> ?rc" using assms(1) Cons.prems(1) by simp
  have rcb: "?rc < float_overflow_bound" using assms(2) by simp
  have "nat ?rc \<le> nat ?mx" by simp
  from power_below_cap [OF assms(3) this one_less_bound]
  have pb: "\<bar>retry_backoff_base (server cfg) ^ nat ?rc\<bar> < float_overflow_bound" .
  have body: "fst (sync_loop_body cfg False retry_count) = ?rc"
    "snd (sync_loop_body cfg False retry_count) = PyInt (retry_backoff_base (server cfg) ^ nat ?rc)"
    using sync_loop_body_fst(2) [where cfg = cfg and retry_count = retry_count]
      sync_loop_body_failure [OF rc rcb pb] by simp_all
  have rest: "\<forall>c \<in> set (fst (sync_loop cfg eps ?rc (snd (sync_now cfg ep w)))). \<not> c_success c"
    using Cons.prems(2) unfolding sync_loop_Cons using fail body by simp
  note IH = Cons.IH [OF rc rest]
  have shift: "min (?rc + 1 + int k) ?mx = min (retry_count + 1 + int (Suc k)) ?mx" for k
    by simp
  show ?case
    unfolding sync_loop_Cons length_Cons map_upt_Suc
    using fail body IH by (simp add: shift del: of_nat_Suc)
qed

lemma sync_loop_failure_after_success:
  assumes "0 \<le> retry_max_attempts (server cfg)"
    and "\<bar>retry_backoff_base (server cfg)\<bar> < float_overflow_bound"
    and "Suc i < length (fst (sync_loop cfg eps retry_count w))"
    and "c_success (fst (sync_loop cfg eps retry_count w) ! i)"
    and "\<not> c_success (fst (sync_loop cfg eps retry_count w) ! Suc i)"
  shows "c_retry_count (fst (sync_loop cfg eps retry_count w) ! Suc i)
           = min 1 (retry_max_attempts (server cfg))
         \<and> c_sleep (fst (sync_loop cfg eps retry_count w) ! Suc i)
           = PyInt (retry_backoff_base (server cfg)
                      ^ nat (min 1 (retry_max_attempts (server cfg))))"
proof -
  let ?cs = "fst (sync_loop cfg eps retry_count w)"
  let ?mx = "retry_max_attempts (server cfg)"
  have i: "i < length ?cs" using assms(3) by simp
  have "(c_retry_count (?cs ! i), c_sleep (?cs ! i))
      = sync_loop_body cfg True (if i = 0 then retry_count else c_retry_count (?cs ! (i - 1)))"
    using sync_loop_steps [of cfg eps retry_count w] i assms(4) by auto
  then have "c_retry_count (?cs ! i) = fst (sync_loop_body cfg True
      (if i = 0 then retry_count else c_retry_count (?cs ! (i - 1))))"
    by (metis fst_conv)
  then have z: "c_retry_count (?cs ! i) = 0" by (simp only: sync_loop_body_fst(1))
  have "(c_retry_count (?cs ! Suc i), c_sleep (?cs ! Suc i))
      = sync_loop_body cfg False (c_retry_count (?cs ! i))"
    using sync_loop_steps [of cfg eps retry_count w] assms(3,5) by auto
  then have step: "(c_retry_count (?cs ! Suc i), c_sleep (?cs ! Suc i))
      = sync_loop_body cfg False 0" unfolding z .
  have m: "min (0 + 1) ?mx = min 1 ?mx" by simp
  have rc: "0 \<le> min (0 + 1) ?mx" using assms(1) by simp
  have rcb: "min (0 + 1) ?mx < float_overflow_bound" using one_less_bound by simp
  have "nat (min (0 + 1) ?mx) \<le> 1" by simp
  then have "nat (min (0 + 1) ?mx) = 0 \<or> nat (min (0 + 1) ?mx) = 1" by linarith
  then have pb: "\<bar>retry_backoff_base (server cfg) ^ nat (min (0 + 1) ?mx)\<bar> < float_overflow_bound"
    using assms(2) one_less_bound by auto
  have "fst (sync_loop_body cfg False 0) = min (0 + 1) ?mx"
    by (rule sync_loop_body_fst(2))
  moreover have "snd (sync_loop_body cfg False 0)
      = PyInt (retry_backoff_base (server cfg) ^ nat (min (0 + 1) ?mx))"
    using rc rcb pb by (rule sync_loop_body_failure)
  ultimately have "sync_loop_body cfg False 0
      = (min 1 ?mx, PyInt (retry_backoff_base (server cfg) ^ nat (min 1 ?mx)))"
    unfolding m by (metis prod.collapse)
  with step show ?thesis by simp
qed


lemma unreachable_cycles_fail:
  assumes "set eps \<subseteq> {unreachable_endpoint}" and "db w = scenario_db"
  shows "\<forall>c \<in> set (fst (sync_loop scenario_config eps retry_count w)). \<not> c_success c"
  using assms
proof (induction eps arbitrary: retry_count w)
  case Nil
  then show ?case by simp
next
  case (Cons ep eps)
  have ep: "ep = unreachable_endpoint" and eps: "set eps \<subseteq> {unreachable_endpoint}"
    using Cons.prems(1) by simp_all
  have ne: "get_unsynced_punches 100 (db w) \<noteq> []"
    using scenario_enabled(3) Cons.prems(2) by (simp add: scenario_world_db)
  note run = sync_now_run [OF scenario_enabled(1,2) ne, of ep]
  have f: "\<not> fst (sync_now scenario_config ep w)"
    using run(1) by (simp add: ep unreachable_endpoint_def)
  have d: "db (snd (sync_now scenario_config ep w)) = scenario_db"
    using run(2) Cons.prems(2) by (simp add: ep unreachable_endpoint_def)
  show ?case
    unfolding sync_loop_Cons using f Cons.IH [OF eps d] by simp
qed

lemma all_false_map: "\<forall>x \<in> set xs. \<not> f x \<Longrightarrow> map f xs = replicate (length xs) False"
  by (induction xs) simp_all

text \<open>
  Claim C5. In the loop, a successful cycle sets the retry count to 0 and sleeps
  \<open>sync_interval_seconds\<close>. A failed cycle sets the retry count to the minimum of its
  successor and \<open>retry_max_attempts\<close> and sleeps \<open>retry_backoff_base\<close> raised to that
  count (an integer as soon as the count is not negative). So a run of failures from the
  start of the loop, with a cap that is not negative, has the retry counts
  \<open>min k cap\<close> and the sleeps \<open>base ^ min k cap\<close> for \<open>k = 1, 2, 3, ...\<close>: for base 2
  the delays 2, 4, 8, 16, ... up to \<open>2 ^ cap\<close>.
\<close>

lemma sync_loop_body_overflow:
  assumes "0 \<le> min (retry_count + 1) (retry_max_attempts (server cfg))"
    and "float_overflow_bound \<le> retry_backoff_base (server cfg)
           ^ nat (min (retry_count + 1) (retry_max_attempts (server cfg)))"
  shows "sync_loop_body cfg False retry_count
           = (min (retry_count + 1) (retry_max_attempts (server cfg)), PyInt 60)"
proof -
  let ?rc = "min (retry_count + 1) (retry_max_attempts (server cfg))"
  let ?b = "retry_backoff_base (server cfg) ^ nat ?rc"
  have p: "py_pow (retry_backoff_base (server cfg)) ?rc = Inr (PyInt ?b)"
    using assms(1) by (simp add: py_pow_def)
  have "0 < ?b" using assms(2) one_less_bound by linarith
  then have s: "asyncio_sleep (PyInt ?b) = Inl OverflowError"
    using assms(2) by (simp add: asyncio_sleep_def float_overflows_def)
  show ?thesis
    by (simp add: sync_loop_body_def sync_loop_try_def Let_def p s)
qed

lemma small_below_bound: "i < 512 \<Longrightarrow> i < float_overflow_bound"
proof -
  assume "i < 512"
  moreover have "(512::int) = 2 ^ 9" by simp
  moreover have "(2::int) ^ 9 \<le> 2 ^ 1023" by (rule power_increasing) simp_all
  ultimately show ?thesis using float_overflow_bound_ge by linarith
qed

lemma scenario_loop_settings:
  "sync_interval_seconds (server scenario_config) = 300"
  "retry_max_attempts (server scenario_config) = 5"
  "retry_backoff_base (server scenario_config) = 2"
  by (simp_all add: scenario_config_def default_config_def)

lemma unreachable_step:
  assumes "enabled (server cfg)" and "url (server cfg) \<noteq> []"
    and "get_unsynced_punches 100 (db w) \<noteq> []"
  shows "\<not> fst (sync_now cfg unreachable_endpoint w)"
    and "db (snd (sync_now cfg unreachable_endpoint w)) = db w"
  using sync_now_run [OF assms, of unreachable_endpoint]
  by (simp_all add: unreachable_endpoint_def)

lemma accepting_step:
  assumes "enabled (server cfg)" and "url (server cfg) \<noteq> []"
    and "get_unsynced_punches 100 (db w) \<noteq> []"
  shows "fst (sync_now cfg accepting_endpoint w)"
    and "db (snd (sync_now cfg accepting_endpoint w))
           = mark_punches_synced (map p_id (get_unsynced_punches 100 (db w))) (db w)"
  using sync_now_run [OF assms, of accepting_endpoint]
  by (simp_all add: accepting_endpoint_def)

lemma backlog_unsynced:
  "get_unsynced_punches 100 (db backlog_world) = map backlog_punch [0..<100]"
proof -
  have "filter (\<lambda>p. p_status p \<noteq> Synced) (map backlog_punch [0..<101])
      = map backlog_punch [0..<101]"
    by (rule filter_True) (auto simp: backlog_punch_def)
  moreover have "take 100 (map backlog_punch [0..<101]) = map backlog_punch [0..<100]"
    by (simp add: take_map)
  ultimately show ?thesis
    by (simp add: get_unsynced_punches_def backlog_world_def)
qed

lemma unsynced_left:
  assumes "p \<in> set (punches d)" and "p_status p \<noteq> Synced" and "p_id p \<notin> set ids"
  shows "get_unsynced_punches 100 (mark_punches_synced ids d) \<noteq> []"
proof -
  let ?f = "\<lambda>p. if p_id p \<in> set ids then p\<lparr>p_status := Synced\<rparr> else p"
  have "?f p \<in> ?f ` set (punches d)" using assms(1) by (rule imageI)
  then have "p \<in> set (punches (mark_punches_synced ids d))"
    using assms(3) by (simp add: mark_punches_synced_def)
  then have "p \<in> set (filter (\<lambda>p. p_status p \<noteq> Synced) (punches (mark_punches_synced ids d)))"
    using assms(2) by simp
  then have "length (filter (\<lambda>p. p_status p \<noteq> Synced) (punches (mark_punches_synced ids d))) > 0"
    by (rule length_pos_if_in_set)
  then have "filter (\<lambda>p. p_status p \<noteq> Synced) (punches (mark_punches_synced ids d)) \<noteq> []"
    by simp
  then show ?thesis by (simp add: get_unsynced_punches_def)
qed

lemma backlog_after_batch:
  "get_unsynced_punches 100
     (mark_punches_synced (map p_id (map backlog_punch [0..<100])) (db backlog_world)) \<noteq> []"
proof (rule unsynced_left [of "backlog_punch 100"])
  show "backlog_punch 100 \<in> set (punches (db backlog_world))"
    by (simp add: backlog_world_def)
  show "p_status (backlog_punch 100) \<noteq> Synced" by (simp add: backlog_punch_def)
  show "p_id (backlog_punch 100) \<notin> set (map p_id (map backlog_punch [0..<100]))"
    by (auto simp: backlog_punch_def)
qed


lemma backlog_run_flags:
  "map c_success
     (fst (sync_loop scenario_config
             [unreachable_endpoint, unreachable_endpoint, accepting_endpoint,
              unreachable_endpoint] 0 backlog_world))
     = [False, False, True, False]"
proof -
  let ?w1 = "snd (sync_now scenario_config unreachable_endpoint backlog_world)"
  let ?w2 = "snd (sync_now scenario_config unreachable_endpoint ?w1)"
  let ?w3 = "snd (sync_now scenario_config accepting_endpoint ?w2)"
  have n0: "get_unsynced_punches 100 (db backlog_world) \<noteq> []"
    unfolding backlog_unsynced by simp
  note s1 = unreachable_step [OF scenario_enabled(1,2) n0]
  have n1: "get_unsynced_punches 100 (db ?w1) \<noteq> []" unfolding s1(2) by (rule n0)
  note s2 = unreachable_step [OF scenario_enabled(1,2) n1]
  have d2: "db ?w2 = db backlog_world" unfolding s2(2) s1(2) ..
  have n2: "get_unsynced_punches 100 (db ?w2) \<noteq> []" unfolding d2 by (rule n0)
  note s3 = accepting_step [OF scenario_enabled(1,2) n2]
  have n3: "get_unsynced_punches 100 (db ?w3) \<noteq> []"
    unfolding s3(2) d2 backlog_unsynced by (rule backlog_after_batch)
  note s4 = unreachable_step [OF scenario_enabled(1,2) n3]
  show ?thesis
    unfolding sync_loop_Cons using s1(1) s2(1) s3(1) s4(1) by simp
qed

text \<open>
  Claim C5. In the loop, a successful cycle sets the retry count to 0 and sleeps
  \<open>sync_interval_seconds\<close>. A failed cycle sets the retry count to the minimum of its
  successor and \<open>retry_max_attempts\<close> and sleeps \<open>retry_backoff_base\<close> raised to that
  count. Every cycle of a run applies this to the count the cycle before has left, so a
  failure that follows a success counts from 0 again: count 1 and a sleep of the base
  itself (for a cap of at least 1). A run of failures from the start of the loop has the
  retry counts \<open>min k cap\<close> and the sleeps \<open>base ^ min k cap\<close> for \<open>k = 1, 2, 3, ...\<close>:
  for base 2 the delays 2, 4, 8, 16, ... up to \<open>2 ^ cap\<close>. The sleeps are stated for
  counts that are not negative and for delays and counts below \<open>float_overflow_bound\<close>,
  that is for turns in which neither the warning nor \<open>asyncio.sleep\<close> raises; the retry
  counts hold without condition.
\<close>

theorem sync_loop_backoff:
  "(sync_interval_seconds (server cfg) < float_overflow_bound \<longrightarrow>
      sync_loop_body cfg True retry_count = (0, PyInt (sync_interval_seconds (server cfg))))
   \<and> fst (sync_loop_body cfg True retry_count) = 0
   \<and> fst (sync_loop_body cfg False retry_count)
       = min (retry_count + 1) (retry_max_attempts (server cfg))
   \<and> (0 \<le> min (retry_count + 1) (retry_max_attempts (server cfg))
        \<and> min (retry_count + 1) (retry_max_attempts (server cfg)) < float_overflow_bound
        \<and> \<bar>retry_backoff_base (server cfg)
              ^ nat (min (retry_count + 1) (retry_max_attempts (server cfg)))\<bar>
            < float_overflow_bound \<longrightarrow>
        snd (sync_loop_body cfg False retry_count)
          = PyInt (retry_backoff_base (server cfg)
                     ^ nat (min (retry_count + 1) (retry_max_attempts (server cfg)))))
   \<and> (\<forall>i < length (fst (sync_loop cfg eps retry_count w)).
         (c_retry_count (fst (sync_loop cfg eps retry_count w) ! i),
          c_sleep (fst (sync_loop cfg eps retry_count w) ! i))
           = sync_loop_body cfg (c_success (fst (sync_loop cfg eps retry_count w) ! i))
               (if i = 0 then retry_count
                else c_retry_count (fst (sync_loop cfg eps retry_count w) ! (i - 1))))
   \<and> (sync_interval_seconds (server cfg) < float_overflow_bound \<longrightarrow>
        (\<forall>c \<in> set (fst (sync_loop cfg eps retry_count w)).
           c_success c \<longrightarrow>
             c_retry_count c = 0 \<and> c_sleep c = PyInt (sync_interval_seconds (server cfg))))
   \<and> (0 \<le> retry_max_attempts (server cfg)
        \<and> \<bar>retry_backoff_base (server cfg)\<bar> < float_overflow_bound \<longrightarrow>
        (\<forall>i. Suc i < length (fst (sync_loop cfg eps retry_count w))
              \<and> c_success (fst (sync_loop cfg eps retry_count w) ! i)
              \<and> \<not> c_success (fst (sync_loop cfg eps retry_count w) ! Suc i) \<longrightarrow>
           c_retry_count (fst (sync_loop cfg eps retry_count w) ! Suc i)
             = min 1 (retry_max_attempts (server cfg))
           \<and> c_sleep (fst (sync_loop cfg eps retry_count w) ! Suc i)
             = PyInt (retry_backoff_base (server cfg)
                        ^ nat (min 1 (retry_max_attempts (server cfg))))))
   \<and> (0 \<le> retry_max_attempts (server cfg)
        \<and> retry_max_attempts (server cfg) < float_overflow_bound
        \<and> \<bar>retry_backoff_base (server cfg)\<bar> ^ nat (retry_max_attempts (server cfg))
            < float_overflow_bound
        \<and> (\<forall>c \<in> set (fst (sync_loop cfg eps 0 w)). \<not> c_success c) \<longrightarrow>
          map c_retry_count (fst (sync_loop cfg eps 0 w))
            = map (\<lambda>k. min (1 + int k) (retry_max_attempts (server cfg))) [0..<length eps]
          \<and> map c_sleep (fst (sync_loop cfg eps 0 w))
            = map (\<lambda>k. PyInt (retry_backoff_base (server cfg)
                     ^ nat (min (1 + int k) (retry_max_attempts (server cfg)))))
                [0..<length eps])"
proof (intro conjI)
  show "sync_interval_seconds (server cfg) < float_overflow_bound \<longrightarrow>
      sync_loop_body cfg True retry_count = (0, PyInt (sync_interval_seconds (server cfg)))"
    using sync_loop_body_success by blast
  show "fst (sync_loop_body cfg True retry_count) = 0"
    by (rule sync_loop_body_fst(1))
  show "fst (sync_loop_body cfg False retry_count)
       = min (retry_count + 1) (retry_max_attempts (server cfg))"
    by (rule sync_loop_body_fst(2))
  show "0 \<le> min (retry_count + 1) (retry_max_attempts (server cfg))
        \<and> min (retry_count + 1) (retry_max_attempts (server cfg)) < float_overflow_bound
        \<and> \<bar>retry_backoff_base (server cfg)
              ^ nat (min (retry_count + 1) (retry_max_attempts (server cfg)))\<bar>
            < float_overflow_bound \<longrightarrow>
        snd (sync_loop_body cfg False retry_count)
          = PyInt (retry_backoff_base (server cfg)
                     ^ nat (min (retry_count + 1) (retry_max_attempts (server cfg))))"
    using sync_loop_body_failure by blast
  show "\<forall>i < length (fst (sync_loop cfg eps retry_count w)).
         (c_retry_count (fst (sync_loop cfg eps retry_count w) ! i),
          c_sleep (fst (sync_loop cfg eps retry_count w) ! i))
           = sync_loop_body cfg (c_success (fst (sync_loop cfg eps retry_count w) ! i))
               (if i = 0 then retry_count
                else c_retry_count (fst (sync_loop cfg eps retry_count w) ! (i - 1)))"
    by (rule sync_loop_steps)
  show "sync_interval_seconds (server cfg) < float_overflow_bound \<longrightarrow>
        (\<forall>c \<in> set (fst (sync_loop cfg eps retry_count w)).
           c_success c \<longrightarrow>
             c_retry_count c = 0 \<and> c_sleep c = PyInt (sync_interval_seconds (server cfg)))"
    using sync_loop_success_cycles by blast
  show "0 \<le> retry_max_attempts (server cfg)
        \<and> \<bar>retry_backoff_base (server cfg)\<bar> < float_overflow_bound \<longrightarrow>
        (\<forall>i. Suc i < length (fst (sync_loop cfg eps retry_count w))
              \<and> c_success (fst (sync_loop cfg eps retry_count w) ! i)
              \<and> \<not> c_success (fst (sync_loop cfg eps retry_count w) ! Suc i) \<longrightarrow>
           c_retry_count (fst (sync_loop cfg eps retry_count w) ! Suc i)
             = min 1 (retry_max_attempts (server cfg))
           \<and> c_sleep (fst (sync_loop cfg eps retry_count w) ! Suc i)
             = PyInt (retry_backoff_base (server cfg)
                        ^ nat (min 1 (retry_max_attempts (server cfg)))))"
    using sync_loop_failure_after_success [where cfg = cfg and eps = eps
        and retry_count = retry_count and w = w] by blast
  show "0 \<le> retry_max_attempts (server cfg)
        \<and> retry_max_attempts (server cfg) < float_overflow_bound
        \<and> \<bar>retry_backoff_base (server cfg)\<bar> ^ nat (retry_max_attempts (server cfg))
            < float_overflow_bound
        \<and> (\<forall>c \<in> set (fst (sync_loop cfg eps 0 w)). \<not> c_success c) \<longrightarrow>
          map c_retry_count (fst (sync_loop cfg eps 0 w))
            = map (\<lambda>k. min (1 + int k) (retry_max_attempts (server cfg))) [0..<length eps]
          \<and> map c_sleep (fst (sync_loop cfg eps 0 w))
            = map (\<lambda>k. PyInt (retry_backoff_base (server cfg)
                     ^ nat (min (1 + int k) (retry_max_attempts (server cfg)))))
                [0..<length eps]"
  proof
    assume a: "0 \<le> retry_max_attempts (server cfg)
        \<and> retry_max_attempts (server cfg) < float_overflow_bound
        \<and> \<bar>retry_backoff_base (server cfg)\<bar> ^ nat (retry_max_attempts (server cfg))
            < float_overflow_bound
        \<and> (\<forall>c \<in> set (fst (sync_loop cfg eps 0 w)). \<not> c_success c)"
    have z: "(0::int) \<le> 0" by simp
    from a have a1: "0 \<le> retry_max_attempts (server cfg)"
      and a2: "retry_max_attempts (server cfg) < float_overflow_bound"
      and a3: "\<bar>retry_backoff_base (server cfg)\<bar> ^ nat (retry_max_attempts (server cfg))
            < float_overflow_bound"
      and a4: "\<forall>c \<in> set (fst (sync_loop cfg eps 0 w)). \<not> c_success c"
      by blast+
    from sync_loop_failures [OF a1 a2 a3 z a4]
    show "map c_retry_count (fst (sync_loop cfg eps 0 w))
            = map (\<lambda>k. min (1 + int k) (retry_max_attempts (server cfg))) [0..<length eps]
          \<and> map c_sleep (fst (sync_loop cfg eps 0 w))
            = map (\<lambda>k. PyInt (retry_backoff_base (server cfg)
                     ^ nat (min (1 + int k) (retry_max_attempts (server cfg)))))
                [0..<length eps]"
      by simp
  qed
qed

theorem sync_loop_backoff_witness:
  "sync_interval_seconds (server scenario_config) < float_overflow_bound
   \<and> 0 \<le> retry_max_attempts (server scenario_config)
   \<and> retry_max_attempts (server scenario_config) < float_overflow_bound
   \<and> \<bar>retry_backoff_base (server scenario_config)\<bar>
        ^ nat (retry_max_attempts (server scenario_config)) < float_overflow_bound
   \<and> retry_backoff_base (server scenario_config) = 2
   \<and> retry_max_attempts (server scenario_config) = 5
   \<and> map c_success
        (fst (sync_loop scenario_config
                [unreachable_endpoint, unreachable_endpoint, unreachable_endpoint,
                 unreachable_endpoint, unreachable_endpoint, unreachable_endpoint,
                 unreachable_endpoint] 0 scenario_world))
       = [False, False, False, False, False, False, False]
   \<and> map c_retry_count
        (fst (sync_loop scenario_config
                [unreachable_endpoint, unreachable_endpoint, unreachable_endpoint,
                 unreachable_endpoint, unreachable_endpoint, unreachable_endpoint,
                 unreachable_endpoint] 0 scenario_world))
       = [1, 2, 3, 4, 5, 5, 5]
   \<and> map c_sleep
        (fst (sync_loop scenario_config
                [unreachable_endpoint, unreachable_endpoint, unreachable_endpoint,
                 unreachable_endpoint, unreachable_endpoint, unreachable_endpoint,
                 unreachable_endpoint] 0 scenario_world))
       = [PyInt 2, PyInt 4, PyInt 8, PyInt 16, PyInt 32, PyInt 32, PyInt 32]
   \<and> map c_success
        (fst (sync_loop scenario_config
                [unreachable_endpoint, unreachable_endpoint, accepting_endpoint,
                 unreachable_endpoint] 0 backlog_world))
       = [False, False, True, False]
   \<and> map c_retry_count
        (fst (sync_loop scenario_config
                [unreachable_endpoint, unreachable_endpoint, accepting_endpoint,
                 unreachable_endpoint] 0 backlog_world))
       = [1, 2, 0, 1]
   \<and> map c_sleep
        (fst (sync_loop scenario_config
                [unreachable_endpoint, unreachable_endpoint, accepting_endpoint,
                 unreachable_endpoint] 0 backlog_world))
       = [PyInt 2, PyInt 4, PyInt 300, PyInt 2]"
proof -
  let ?eps = "[unreachable_endpoint, unreachable_endpoint, unreachable_endpoint,
               unreachable_endpoint, unreachable_endpoint, unreachable_endpoint,
               unreachable_endpoint]"
  let ?cs = "fst (sync_loop scenario_config ?eps 0 scenario_world)"
  let ?mixed = "[unreachable_endpoint, unreachable_endpoint, accepting_endpoint,
                 unreachable_endpoint]"
  let ?ms = "fst (sync_loop scenario_config ?mixed 0 backlog_world)"
  note set = scenario_loop_settings
  have iv: "sync_interval_seconds (server scenario_config) < float_overflow_bound"
    unfolding set by (rule small_below_bound) simp
  have cap0: "0 \<le> retry_max_attempts (server scenario_config)" unfolding set by simp
  have cap: "retry_max_attempts (server scenario_config) < float_overflow_bound"
    unfolding set by (rule small_below_bound) simp
  have pw: "\<bar>retry_backoff_base (server scenario_config)\<bar>
        ^ nat (retry_max_attempts (server scenario_config)) < float_overflow_bound"
    unfolding set by (rule small_below_bound) simp
  have fails: "\<forall>c \<in> set ?cs. \<not> c_success c"
    by (rule unreachable_cycles_fail) (simp_all add: scenario_world_db)
  have len: "length ?cs = 7" by (simp only: sync_loop_length) simp
  have s: "map c_success ?cs = [False, False, False, False, False, False, False]"
    using all_false_map [OF fails] unfolding len by (simp add: numeral_eq_Suc)
  have up: "[0..<length ?eps] = [0, 1, 2, 3, 4, 5, 6]"
    by (simp add: upt_rec)
  note run = sync_loop_backoff [of scenario_config 0 ?eps scenario_world]
  have a: "map c_retry_count ?cs = [1, 2, 3, 4, 5, 5, 5]
      \<and> map c_sleep ?cs = [PyInt 2, PyInt 4, PyInt 8, PyInt 16, PyInt 32, PyInt 32, PyInt 32]"
  proof -
    from run iv cap0 cap pw fails
    have "map c_retry_count ?cs
            = map (\<lambda>k. min (1 + int k) (retry_max_attempts (server scenario_config)))
                [0..<length ?eps]
          \<and> map c_sleep ?cs
            = map (\<lambda>k. PyInt (retry_backoff_base (server scenario_config)
                     ^ nat (min (1 + int k) (retry_max_attempts (server scenario_config)))))
                [0..<length ?eps]"
      by blast
    then show ?thesis unfolding up set by simp
  qed
  note mix = sync_loop_backoff [of scenario_config 0 ?mixed backlog_world]
  have flags: "map c_success ?ms = [False, False, True, False]" by (rule backlog_run_flags)
  have len4: "length ?ms = 4" by (simp only: sync_loop_length) simp
  have f0: "\<not> c_success (?ms ! 0)" and f1: "\<not> c_success (?ms ! 1)"
    and f2: "c_success (?ms ! 2)" and f3: "\<not> c_success (?ms ! 3)"
    using flags len4 by (auto simp: list_eq_iff_nth_eq nth_Cons' numeral_eq_Suc)
  have steps: "\<forall>i < length ?ms.
         (c_retry_count (?ms ! i), c_sleep (?ms ! i))
           = sync_loop_body scenario_config (c_success (?ms ! i))
               (if i = 0 then 0 else c_retry_count (?ms ! (i - 1)))"
    using mix by blast
  have b1: "sync_loop_body scenario_config False 0 = (1, PyInt 2)"
    and b2: "sync_loop_body scenario_config False 1 = (2, PyInt 4)"
    and b3: "sync_loop_body scenario_config True 2 = (0, PyInt 300)"
  proof -
    have small: "\<And>i::int. i < 512 \<Longrightarrow> i < float_overflow_bound" by (rule small_below_bound)
    note t0 = sync_loop_backoff [of scenario_config 0 "[]" scenario_world]
    note t1 = sync_loop_backoff [of scenario_config 1 "[]" scenario_world]
    note t2 = sync_loop_backoff [of scenario_config 2 "[]" scenario_world]
    have "fst (sync_loop_body scenario_config False 0) = 1"
      and "snd (sync_loop_body scenario_config False 0) = PyInt 2"
      using t0 small [of 1] small [of 2] unfolding set by simp_all
    then show "sync_loop_body scenario_config False 0 = (1, PyInt 2)"
      by (metis prod.collapse)
    have "fst (sync_loop_body scenario_config False 1) = 2"
      and "snd (sync_loop_body scenario_config False 1) = PyInt 4"
      using t1 small [of 2] small [of 4] unfolding set by simp_all
    then show "sync_loop_body scenario_config False 1 = (2, PyInt 4)"
      by (metis prod.collapse)
    show "sync_loop_body scenario_config True 2 = (0, PyInt 300)"
      using t2 iv unfolding set by simp
  qed
  have c0: "(c_retry_count (?ms ! 0), c_sleep (?ms ! 0)) = (1, PyInt 2)"
    using steps len4 f0 b1 by simp
  then have r0: "c_retry_count (?ms ! 0) = 1" by simp
  have c1: "(c_retry_count (?ms ! 1), c_sleep (?ms ! 1)) = (2, PyInt 4)"
    using steps [rule_format, of 1] len4 f1 b2 r0 by simp
  then have r1: "c_retry_count (?ms ! 1) = 2" by simp
  have c2: "(c_retry_count (?ms ! 2), c_sleep (?ms ! 2)) = (0, PyInt 300)"
    using steps [rule_format, of 2] len4 f2 b3 r1 by simp
  have c3: "c_retry_count (?ms ! 3) = 1 \<and> c_sleep (?ms ! 3) = PyInt 2"
  proof -
    have "\<bar>retry_backoff_base (server scenario_config)\<bar> < float_overflow_bound"
      unfolding set by (rule small_below_bound) simp
    moreover have "Suc 2 < length ?ms" unfolding len4 by simp
    moreover have "c_success (?ms ! 2)" by (rule f2)
    moreover have "\<not> c_success (?ms ! Suc 2)" using f3 by (simp add: numeral_3_eq_3)
    ultimately have "c_retry_count (?ms ! Suc 2)
             = min 1 (retry_max_attempts (server scenario_config))
           \<and> c_sleep (?ms ! Suc 2)
             = PyInt (retry_backoff_base (server scenario_config)
                        ^ nat (min 1 (retry_max_attempts (server scenario_config))))"
      using mix cap0 by blast
    then show ?thesis unfolding set by (simp add: numeral_3_eq_3)
  qed
  have m: "map c_retry_count ?ms = [1, 2, 0, 1]
      \<and> map c_sleep ?ms = [PyInt 2, PyInt 4, PyInt 300, PyInt 2]"
    using c0 c1 c2 c3 len4
    by (auto simp: list_eq_iff_nth_eq nth_Cons' less_Suc_eq numeral_eq_Suc)
  show ?thesis
    using iv cap0 cap pw set(2,3) s a flags m by blast
qed

section \<open>Properties of enrollment capture\<close>

lemma get_user_id: "get_user uid d = Some user \<Longrightarrow> u_id user = uid"
  unfolding get_user_def by (induction "users d" arbitrary: d) (auto simp: find_Some_iff)

lemma add_template_templates:
  "templates (add_template uid p q created d) =
     templates d @ [\<lparr> t_id = next_template_id d, t_user_id = uid, t_template_path = p,
                      t_quality = q, t_created_at = created \<rparr>]"
  "users (add_template uid p q created d) = users d"
  "punches (add_template uid p q created d) = punches d"
  by (simp_all add: add_template_def)

lemma capture_sample_run:
  assumes "verify_token active_tokens token" and "verify_nbis_tools cfg e = None"
    and "get_user user_id d = Some user"
    and "fst (capture_fingerprint e (sample_image_path cfg e user sample_number))"
  shows "capture_sample active_tokens cfg e d user_id sample_number token =
     (case extract_features e (sample_image_path cfg e user sample_number) of
        (extracted, xyt_path, quality) \<Rightarrow>
          (if \<not> extracted
           then (Inr \<lparr> cr_success = False, cr_quality = 0,
                       cr_sample_number = sample_number,
                       cr_message = ''Feature extraction failed'' \<rparr>, d)
           else if quality < min_quality_score (fingerprint cfg)
           then (Inr \<lparr> cr_success = False, cr_quality = quality,
                       cr_sample_number = sample_number,
                       cr_message =
                         ''Low quality fingerprint (score='' @ str_int quality
                         @ '', minimum=''
                         @ str_int (min_quality_score (fingerprint cfg))
                         @ '')'' \<rparr>, d)
           else (Inr \<lparr> cr_success = True, cr_quality = quality,
                       cr_sample_number = sample_number,
                       cr_message = ''Sample captured successfully'' \<rparr>,
                 add_template (u_id user)
                   (case xyt_path of Some p \<Rightarrow> p | None \<Rightarrow> ''None'')
                   quality (utcnow e) d)))"
  using assms by (simp add: capture_sample_def Let_def case_prod_unfold)

lemma calculate_quality_replicate:
  "calculate_quality (Lines (replicate n ''10 20 30'')) = int n"
proof -
  have "strip ''10 20 30'' \<noteq> [] \<and> \<not> startswith ''10 20 30'' ''#''"
    by (simp add: strip_def py_isspace_def startswith_def)
  then have "filter (\<lambda>line. strip line \<noteq> [] \<and> \<not> startswith line ''#'')
        (replicate n ''10 20 30'') = replicate n ''10 20 30''"
    by (induction n) simp_all
  then show ?thesis by (simp add: calculate_quality_def)
qed

lemma scenario_env_extract:
  "extract_features (scenario_env Raised) p = (False, None, 0)"
  "extract_features (scenario_env (Completed 0 (Lines ls))) p
     = (True, Some (takeWhile (\<lambda>c. c \<noteq> CHR ''.'') (takeWhile (\<lambda>c. c \<noteq> CHR ''.'') p) @ ''.xyt''),
        calculate_quality (Lines ls))"
  by (simp_all add: extract_features_def scenario_env_def Let_def)

lemma scenario_env_ready:
  "verify_token scenario_tokens ''tok''"
  "verify_nbis_tools default_config (scenario_env outcome) = None"
  "fst (capture_fingerprint (scenario_env outcome) p)"
  "utcnow (scenario_env outcome) = ''2024-02-01T14:00:00''"
  by (simp_all add: verify_token_def scenario_tokens_def verify_nbis_tools_def scenario_env_def)

lemma scenario_user:
  "get_user 10 scenario_db =
     Some \<lparr> u_id = 10, u_name = ''Ana'', u_employee_code = ''A123'', u_active = True,
            u_created_at = ''2024-01-01T08:00:00'' \<rparr>"
  by (simp add: get_user_def scenario_db_def)

lemma scenario_min_quality: "min_quality_score (fingerprint default_config) = 20"
  by (simp add: default_config_def)

lemma str_int_small: "str_int 15 = ''15''" "str_int 20 = ''20''"
  by (simp_all add: str_int_def str_nat.simps)

text \<open>
  Claim C6. Take a sample submission with a valid token, the NBIS tools in place, an
  existing user and a captured image. A template is persisted exactly when feature
  extraction succeeds and the quality \<open>q\<close> is at least \<open>min_quality_score\<close>. When
  extraction fails, the response is the failure \<open>Feature extraction failed\<close> with
  quality 0 and the database is unchanged. When \<open>q\<close> is below the threshold, the
  response is a failure that reports \<open>q\<close>, the database is unchanged and so are the
  user's templates. Otherwise the response is a success reporting \<open>q\<close> and the user has
  one more template, of quality \<open>q\<close>.
\<close>

theorem capture_sample_quality_gate:
  assumes "verify_token active_tokens token" and "verify_nbis_tools cfg e = None"
    and "get_user user_id d = Some user"
    and "fst (capture_fingerprint e (sample_image_path cfg e user sample_number))"
    and "extract_features e (sample_image_path cfg e user sample_number)
           = (extracted, xyt_path, q)"
  shows
    "(templates (snd (capture_sample active_tokens cfg e d user_id sample_number token))
        \<noteq> templates d)
       = (extracted \<and> min_quality_score (fingerprint cfg) \<le> q)
     \<and> (\<not> extracted \<longrightarrow>
          capture_sample active_tokens cfg e d user_id sample_number token
            = (Inr \<lparr> cr_success = False, cr_quality = 0, cr_sample_number = sample_number,
                      cr_message = ''Feature extraction failed'' \<rparr>, d))
     \<and> (extracted \<and> q < min_quality_score (fingerprint cfg) \<longrightarrow>
          capture_sample active_tokens cfg e d user_id sample_number token
            = (Inr \<lparr> cr_success = False, cr_quality = q, cr_sample_number = sample_number,
                      cr_message = ''Low quality fingerprint (score='' @ str_int q
                        @ '', minimum='' @ str_int (min_quality_score (fingerprint cfg))
                        @ '')'' \<rparr>, d)
          \<and> get_user_templates user_id
                (snd (capture_sample active_tokens cfg e d user_id sample_number token))
              = get_user_templates user_id d)
     \<and> (extracted \<and> min_quality_score (fingerprint cfg) \<le> q \<longrightarrow>
          fst (capture_sample active_tokens cfg e d user_id sample_number token)
            = Inr \<lparr> cr_success = True, cr_quality = q, cr_sample_number = sample_number,
                     cr_message = ''Sample captured successfully'' \<rparr>
          \<and> templates (snd (capture_sample active_tokens cfg e d user_id sample_number token))
              = templates d @
                  [\<lparr> t_id = next_template_id d, t_user_id = user_id,
                     t_template_path = (case xyt_path of Some p \<Rightarrow> p | None \<Rightarrow> ''None''),
                     t_quality = q, t_created_at = utcnow e \<rparr>]
          \<and> length (get_user_templates user_id
                (snd (capture_sample active_tokens cfg e d user_id sample_number token)))
              = length (get_user_templates user_id d) + 1)"
proof -
  let ?r = "capture_sample active_tokens cfg e d user_id sample_number token"
  let ?mn = "min_quality_score (fingerprint cfg)"
  note run = capture_sample_run [OF assms(1-4), unfolded assms(5), simplified]
  have uid: "u_id user = user_id" using assms(3) by (rule get_user_id)
  have failed: "?r = (Inr \<lparr> cr_success = False, cr_quality = 0, cr_sample_number = sample_number,
                      cr_message = ''Feature extraction failed'' \<rparr>, d)" if "\<not> extracted"
    using run that by simp
  have low: "?r = (Inr \<lparr> cr_success = False, cr_quality = q, cr_sample_number = sample_number,
                      cr_message = ''Low quality fingerprint (score='' @ str_int q
                        @ '', minimum='' @ str_int ?mn @ '')'' \<rparr>, d)"
    if "extracted \<and> q < ?mn"
    using run that by simp
  have ok: "?r = (Inr \<lparr> cr_success = True, cr_quality = q, cr_sample_number = sample_number,
                     cr_message = ''Sample captured successfully'' \<rparr>,
                  add_template user_id (case xyt_path of Some p \<Rightarrow> p | None \<Rightarrow> ''None'')
                    q (utcnow e) d)"
    if "extracted \<and> ?mn \<le> q"
    using run that uid by simp
  have c1: "(templates (snd ?r) \<noteq> templates d) = (extracted \<and> ?mn \<le> q)"
  proof (cases "extracted \<and> ?mn \<le> q")
    case True
    then show ?thesis using ok [OF True] by (simp add: add_template_templates)
  next
    case False
    have "snd ?r = d"
    proof (cases extracted)
      case True
      then have "extracted \<and> q < ?mn" using False by auto
      from low [OF this] show ?thesis by (simp only: snd_conv)
    next
      case False
      from failed [OF this] show ?thesis by (simp only: snd_conv)
    qed
    then show ?thesis using False by simp
  qed
  have c3: "get_user_templates user_id (snd ?r) = get_user_templates user_id d"
    if "extracted \<and> q < ?mn"
    using low [OF that] by simp
  have c4: "templates (snd ?r) = templates d @
                  [\<lparr> t_id = next_template_id d, t_user_id = user_id,
                     t_template_path = (case xyt_path of Some p \<Rightarrow> p | None \<Rightarrow> ''None''),
                     t_quality = q, t_created_at = utcnow e \<rparr>]"
    if "extracted \<and> ?mn \<le> q"
    using ok [OF that] by (simp add: add_template_templates)
  have c5: "length (get_user_templates user_id (snd ?r))
              = length (get_user_templates user_id d) + 1"
    if "extracted \<and> ?mn \<le> q"
    using c4 [OF that] by (simp add: get_user_templates_def)
  show ?thesis
  proof (intro conjI impI)
    show "(templates (snd ?r) \<noteq> templates d) = (extracted \<and> ?mn \<le> q)" by (rule c1)
    show "?r = (Inr \<lparr> cr_success = False, cr_quality = 0, cr_sample_number = sample_number,
                      cr_message = ''Feature extraction failed'' \<rparr>, d)" if "\<not> extracted"
      using that by (rule failed)
    show "?r = (Inr \<lparr> cr_success = False, cr_quality = q, cr_sample_number = sample_number,
                      cr_message = ''Low quality fingerprint (score='' @ str_int q
                        @ '', minimum='' @ str_int ?mn @ '')'' \<rparr>, d)"
      if "extracted \<and> q < ?mn"
      using that by (rule low)
    show "get_user_templates user_id (snd ?r) = get_user_templates user_id d"
      if "extracted \<and> q < ?mn"
      using that by (rule c3)
    show "fst ?r = Inr \<lparr> cr_success = True, cr_quality = q, cr_sample_number = sample_number,
                     cr_message = ''Sample captured successfully'' \<rparr>"
      if "extracted \<and> ?mn \<le> q"
      using ok [OF that] by (simp only: fst_conv)
    show "templates (snd ?r) = templates d @
                  [\<lparr> t_id = next_template_id d, t_user_id = user_id,
                     t_template_path = (case xyt_path of Some p \<Rightarrow> p | None \<Rightarrow> ''None''),
                     t_quality = q, t_created_at = utcnow e \<rparr>]"
      if "extracted \<and> ?mn \<le> q"
      using that by (rule c4)
    show "length (get_user_templates user_id (snd ?r))
              = length (get_user_templates user_id d) + 1"
      if "extracted \<and> ?mn \<le> q"
      using that by (rule c5)
  qed
qed

theorem capture_sample_quality_gate_witness:
  "verify_token scenario_tokens ''tok''
   \<and> map_option u_employee_code (get_user 10 scenario_db) = Some ''A123''
   \<and> capture_sample scenario_tokens default_config (scenario_env Raised) scenario_db 10 1 ''tok''
       = (Inr \<lparr> cr_success = False, cr_quality = 0, cr_sample_number = 1,
                 cr_message = ''Feature extraction failed'' \<rparr>, scenario_db)
   \<and> capture_sample scenario_tokens default_config
         (scenario_env (Completed 0 (Lines (replicate 15 ''10 20 30'')))) scenario_db 10 1 ''tok''
       = (Inr \<lparr> cr_success = False, cr_quality = 15, cr_sample_number = 1,
                 cr_message = ''Low quality fingerprint (score=15, minimum=20)'' \<rparr>, scenario_db)
   \<and> fst (capture_sample scenario_tokens default_config
         (scenario_env (Completed 0 (Lines (replicate 25 ''10 20 30'')))) scenario_db 10 2 ''tok'')
       = Inr \<lparr> cr_success = True, cr_quality = 25, cr_sample_number = 2,
                cr_message = ''Sample captured successfully'' \<rparr>
   \<and> map t_quality (templates (snd (capture_sample scenario_tokens default_config
         (scenario_env (Completed 0 (Lines (replicate 25 ''10 20 30'')))) scenario_db 10 2 ''tok'')))
       = [30, 31, 32, 25]
   \<and> map t_user_id (templates (snd (capture_sample scenario_tokens default_config
         (scenario_env (Completed 0 (Lines (replicate 25 ''10 20 30'')))) scenario_db 10 2 ''tok'')))
       = [10, 20, 20, 10]"
proof -
  let ?u = "\<lparr> u_id = 10, u_name = ''Ana'', u_employee_code = ''A123'', u_active = True,
            u_created_at = ''2024-01-01T08:00:00'' \<rparr>"
  let ?e0 = "scenario_env Raised"
  let ?e1 = "scenario_env (Completed 0 (Lines (replicate 15 ''10 20 30'')))"
  let ?e2 = "scenario_env (Completed 0 (Lines (replicate 25 ''10 20 30'')))"
  have x0: "extract_features ?e0 (sample_image_path default_config ?e0 ?u 1) = (False, None, 0)"
    by (rule scenario_env_extract(1))
  have x1: "extract_features ?e1 (sample_image_path default_config ?e1 ?u 1)
      = (True, Some (takeWhile (\<lambda>c. c \<noteq> CHR ''.'')
               (takeWhile (\<lambda>c. c \<noteq> CHR ''.'') (sample_image_path default_config ?e1 ?u 1)) @ ''.xyt''),
         15)"
    by (simp add: scenario_env_extract(2) calculate_quality_replicate)
  have x2: "extract_features ?e2 (sample_image_path default_config ?e2 ?u 2)
      = (True, Some (takeWhile (\<lambda>c. c \<noteq> CHR ''.'')
               (takeWhile (\<lambda>c. c \<noteq> CHR ''.'') (sample_image_path default_config ?e2 ?u 2)) @ ''.xyt''),
         25)"
    by (simp add: scenario_env_extract(2) calculate_quality_replicate)
  note g0 = capture_sample_quality_gate
    [OF scenario_env_ready(1) scenario_env_ready(2) scenario_user scenario_env_ready(3) x0]
  note g1 = capture_sample_quality_gate
    [OF scenario_env_ready(1) scenario_env_ready(2) scenario_user scenario_env_ready(3) x1]
  note g2 = capture_sample_quality_gate
    [OF scenario_env_ready(1) scenario_env_ready(2) scenario_user scenario_env_ready(3) x2]
  have a: "capture_sample scenario_tokens default_config ?e0 scenario_db 10 1 ''tok''
       = (Inr \<lparr> cr_success = False, cr_quality = 0, cr_sample_number = 1,
                 cr_message = ''Feature extraction failed'' \<rparr>, scenario_db)"
    using g0 by simp
  have b: "capture_sample scenario_tokens default_config ?e1 scenario_db 10 1 ''tok''
       = (Inr \<lparr> cr_success = False, cr_quality = 15, cr_sample_number = 1,
                 cr_message = ''Low quality fingerprint (score=15, minimum=20)'' \<rparr>, scenario_db)"
    using g1 by (simp add: scenario_min_quality str_int_small)
  have c: "fst (capture_sample scenario_tokens default_config ?e2 scenario_db 10 2 ''tok'')
       = Inr \<lparr> cr_success = True, cr_quality = 25, cr_sample_number = 2,
                cr_message = ''Sample captured successfully'' \<rparr>"
    and t: "templates (snd (capture_sample scenario_tokens default_config ?e2 scenario_db 10 2 ''tok''))
       = templates scenario_db @
           [\<lparr> t_id = next_template_id scenario_db, t_user_id = 10,
              t_template_path = takeWhile (\<lambda>c. c \<noteq> CHR ''.'')
               (takeWhile (\<lambda>c. c \<noteq> CHR ''.'') (sample_image_path default_config ?e2 ?u 2)) @ ''.xyt'',
              t_quality = 25, t_created_at = utcnow ?e2 \<rparr>]"
    using g2 by (simp_all add: scenario_min_quality)
  have d: "map t_quality (templates (snd (capture_sample scenario_tokens default_config ?e2
        scenario_db 10 2 ''tok''))) = [30, 31, 32, 25]"
    and f: "map t_user_id (templates (snd (capture_sample scenario_tokens default_config ?e2
        scenario_db 10 2 ''tok''))) = [10, 20, 20, 10]"
    unfolding t by (simp_all add: scenario_db_def)
  have u: "map_option u_employee_code (get_user 10 scenario_db) = Some ''A123''"
    by (simp add: scenario_user)
  show ?thesis
    using scenario_env_ready(1) u a b c d f by blast
qed

end
